theory Spec2Isabelle
  imports Complex_Main "HOL-Library.Multiset" "HOL-Library.List_Lexorder" "HOL-Library.Product_Lexorder" "HOL-Library.Monad_Syntax"
begin

section \<open>Data model\<close>

text \<open>
  A node is an index (Python \<open>int\<close>, never negative here); index 0 is the depot.  A route is
  a Python list of nodes, a solution a list of routes.  The demand table is a Python list
  of ints, read as \<open>demands[c]\<close>; the distance matrix \<open>dist[a][b]\<close> is a table of floats and
  is rendered as its lookup function \<open>dm a b\<close> into the reals, so every sum and comparison of costs is
  carried out in exact arithmetic.  Reads \<open>xs ! i\<close> are those of the source; the source
  raises \<open>IndexError\<close> where \<open>i\<close> is out of range, and every theorem below that depends on
  such a read carries the hypothesis that keeps it in range.
\<close>

type_synonym node = nat
type_synonym route = "node list"
type_synonym solution = "route list"
type_synonym dist_matrix = "node \<Rightarrow> node \<Rightarrow> real"

subsection \<open>config.py\<close>

definition K_MAX :: nat where "K_MAX = 5"
definition TABU_TENURE_MIN :: nat where "TABU_TENURE_MIN = 10"
definition TABU_TENURE_MAX :: nat where "TABU_TENURE_MAX = 20"
definition PATIENCE_MIN :: nat where "PATIENCE_MIN = 300"
definition PATIENCE_MAX :: nat where "PATIENCE_MAX = 300"
definition IMPROVEMENT_THRESHOLD :: real where "IMPROVEMENT_THRESHOLD = 1 / 1000"

subsection \<open>utils.py\<close>

definition euclidean :: "real \<times> real \<Rightarrow> real \<times> real \<Rightarrow> real" where
  "euclidean a b = sqrt ((fst a - fst b)\<^sup>2 + (snd a - snd b)\<^sup>2)"

definition compute_distance_matrix :: "(real \<times> real) list \<Rightarrow> dist_matrix" where
  "compute_distance_matrix coords = (\<lambda>i j. euclidean (coords ! i) (coords ! j))"

definition route_cost :: "route \<Rightarrow> dist_matrix \<Rightarrow> real" where
  "route_cost route dm = (\<Sum>i\<leftarrow>[0..<length route - 1]. dm (route ! i) (route ! (i + 1)))"

definition solution_cost :: "solution \<Rightarrow> dist_matrix \<Rightarrow> real" where
  "solution_cost solution dm = (\<Sum>r\<leftarrow>solution. route_cost r dm)"

definition route_demand :: "route \<Rightarrow> int list \<Rightarrow> int" where
  "route_demand route demands = (\<Sum>c\<leftarrow>filter (\<lambda>c. c \<noteq> 0) route. demands ! c)"

subsection \<open>Python list slices used by the operators\<close>

text \<open>\<open>r[1:-1]\<close>: the interior of a route (empty for a route shorter than three nodes).\<close>

definition interior :: "'a list \<Rightarrow> 'a list" where
  "interior r = butlast (tl r)"

text \<open>\<open>r[-2:0:-1]\<close>: the interior walked backwards.\<close>

definition interior_reversed :: "'a list \<Rightarrow> 'a list" where
  "interior_reversed r = rev (butlast (tl r))"

text \<open>\<open>r[a:b]\<close> for \<open>0 \<le> a\<close>, \<open>0 \<le> b\<close>.\<close>

definition slice :: "'a list \<Rightarrow> nat \<Rightarrow> nat \<Rightarrow> 'a list" where
  "slice r a b = take (b - a) (drop a r)"

text \<open>\<open>r.pop(i)\<close> with \<open>i\<close> in range, and \<open>r.insert(pos, x)\<close>.\<close>

definition pop_at :: "'a list \<Rightarrow> nat \<Rightarrow> 'a list" where
  "pop_at r i = take i r @ drop (i + 1) r"

definition insert_at :: "'a list \<Rightarrow> nat \<Rightarrow> 'a \<Rightarrow> 'a list" where
  "insert_at r pos x = take pos r @ x # drop pos r"

text \<open>\<open>route[:i] + route[i:j + 1][::-1] + route[j + 1:]\<close>, the 2-opt reversal.\<close>

definition two_opt_move :: "'a list \<Rightarrow> nat \<Rightarrow> nat \<Rightarrow> 'a list" where
  "two_opt_move route i j = take i route @ rev (slice route i (j + 1)) @ drop (j + 1) route"

text \<open>\<open>[r for r in sol if len(r) > 2]\<close>.\<close>

definition drop_empty_routes :: "solution \<Rightarrow> solution" where
  "drop_empty_routes sol = filter (\<lambda>r. length r > 2) sol"

subsection \<open>The improve-until-no-improvement loop\<close>

text \<open>
  Every neighbourhood is a \<open>while improved:\<close> loop whose body scans for a move, applies
  it and sets \<open>improved\<close>, or finds none and leaves the loop.  One pass is a function that
  returns the solution after the move, or \<open>None\<close> when the scan found no move; the loop
  repeats the pass.  The source gives no bound on the number of passes, so the loop is a
  partial function: \<open>None\<close> is the loop that never ends.
\<close>

partial_function (option) improve_loop :: "('a \<Rightarrow> 'a option) \<Rightarrow> 'a \<Rightarrow> 'a option" where
  "improve_loop pass s = (case pass s of None \<Rightarrow> Some s | Some s' \<Rightarrow> improve_loop pass s')"

declare improve_loop.simps [code]

text \<open>
  The best-of-pass scan: \<open>best_delta\<close> starts at \<open>-IMPROVEMENT_THRESHOLD\<close>,
  \<open>best_move\<close> at \<open>None\<close>, and a candidate replaces the pair when its delta is strictly
  smaller.  The candidates are listed in the order in which the nested \<open>for\<close> loops meet
  them.
\<close>

definition keep_better :: "real \<times> 'm option \<Rightarrow> real \<times> 'm \<Rightarrow> real \<times> 'm option" where
  "keep_better best cand = (if fst cand < fst best then (fst cand, Some (snd cand)) else best)"

definition best_of :: "(real \<times> 'm) list \<Rightarrow> 'm option" where
  "best_of cands = snd (foldl keep_better (- IMPROVEMENT_THRESHOLD, None) cands)"

section \<open>vns.py: fingerprint and tabu list\<close>

text \<open>
  \<open>_solution_hash\<close>: \<open>tuple(sorted([tuple(sorted(r[1:-1])) for r in sol]))\<close>.  Python orders
  tuples lexicographically, a proper prefix before its extensions, which is the order of
  \<open>List_Lexorder\<close>.
\<close>

definition solution_hash :: "solution \<Rightarrow> node list list" where
  "solution_hash sol = sort (map (\<lambda>r. sort (interior r)) sol)"

text \<open>\<open>tabu_tenure = min(TABU_TENURE_MAX, max(TABU_TENURE_MIN, n // 20))\<close>\<close>

definition tabu_tenure :: "nat \<Rightarrow> nat" where
  "tabu_tenure n = min TABU_TENURE_MAX (max TABU_TENURE_MIN (n div 20))"

text \<open>\<open>tabu_list.append(h)\<close>, then \<open>tabu_list.pop(0)\<close> if \<open>len(tabu_list) > tabu_tenure\<close>.\<close>

definition tabu_insert :: "'f list \<Rightarrow> 'f \<Rightarrow> nat \<Rightarrow> 'f list" where
  "tabu_insert tabu_list h tenure =
     (let appended = tabu_list @ [h]
      in if length appended > tenure then tl appended else appended)"

section \<open>neighborhoods.py\<close>

subsection \<open>N1: 2-opt within each route\<close>

definition two_opt_delta :: "route \<Rightarrow> dist_matrix \<Rightarrow> nat \<Rightarrow> nat \<Rightarrow> real" where
  "two_opt_delta route dm i j =
     dm (route ! (i - 1)) (route ! j) + dm (route ! i) (route ! (j + 1))
     - dm (route ! (i - 1)) (route ! i) - dm (route ! j) (route ! (j + 1))"

text \<open>
  The scan of one pass: routes in order, routes of at most three nodes skipped,
  \<open>i\<close> in \<open>range(1, len(route) - 2)\<close>, \<open>j\<close> in \<open>range(i + 1, len(route) - 1)\<close>; the first
  triple whose delta is below \<open>-IMPROVEMENT_THRESHOLD\<close> is applied and all three loops are
  left.
\<close>

definition N1_positions :: "solution \<Rightarrow> (nat \<times> nat \<times> nat) list" where
  "N1_positions best_sol =
     [(r_idx, i, j).
        r_idx \<leftarrow> [0..<length best_sol],
        \<not> length (best_sol ! r_idx) \<le> 3,
        i \<leftarrow> [1..<length (best_sol ! r_idx) - 2],
        j \<leftarrow> [i + 1..<length (best_sol ! r_idx) - 1]]"

definition N1_pass :: "dist_matrix \<Rightarrow> solution \<Rightarrow> solution option" where
  "N1_pass dm best_sol =
     (case List.find (\<lambda>(r_idx, i, j). two_opt_delta (best_sol ! r_idx) dm i j < - IMPROVEMENT_THRESHOLD)
             (N1_positions best_sol) of
        None \<Rightarrow> None
      | Some (r_idx, i, j) \<Rightarrow> Some (best_sol[r_idx := two_opt_move (best_sol ! r_idx) i j]))"

definition N1_two_opt_intra :: "solution \<Rightarrow> dist_matrix \<Rightarrow> solution option" where
  "N1_two_opt_intra solution dm = improve_loop (N1_pass dm) solution"

subsection \<open>N2: relocate one customer to another route\<close>

definition removal_delta :: "solution \<Rightarrow> dist_matrix \<Rightarrow> nat \<Rightarrow> nat \<Rightarrow> real" where
  "removal_delta sol dm r1_idx c_idx =
     dm (sol ! r1_idx ! (c_idx - 1)) (sol ! r1_idx ! (c_idx + 1))
     - dm (sol ! r1_idx ! (c_idx - 1)) (sol ! r1_idx ! c_idx)
     - dm (sol ! r1_idx ! c_idx) (sol ! r1_idx ! (c_idx + 1))"

definition insert_delta :: "solution \<Rightarrow> dist_matrix \<Rightarrow> node \<Rightarrow> nat \<Rightarrow> nat \<Rightarrow> real" where
  "insert_delta sol dm customer r2_idx pos =
     dm (sol ! r2_idx ! (pos - 1)) customer + dm customer (sol ! r2_idx ! pos)
     - dm (sol ! r2_idx ! (pos - 1)) (sol ! r2_idx ! pos)"

definition N2_candidates ::
  "solution \<Rightarrow> int list \<Rightarrow> int \<Rightarrow> dist_matrix \<Rightarrow> (real \<times> nat \<times> nat \<times> nat \<times> nat) list" where
  "N2_candidates sol demands capacity dm =
     [(removal_delta sol dm r1_idx c_idx + insert_delta sol dm (sol ! r1_idx ! c_idx) r2_idx pos,
       (r1_idx, c_idx, r2_idx, pos)).
        r1_idx \<leftarrow> [0..<length sol],
        \<not> length (sol ! r1_idx) \<le> 2,
        c_idx \<leftarrow> [1..<length (sol ! r1_idx) - 1],
        r2_idx \<leftarrow> [0..<length sol],
        r1_idx \<noteq> r2_idx,
        \<not> route_demand (sol ! r2_idx) demands + demands ! (sol ! r1_idx ! c_idx) > capacity,
        pos \<leftarrow> [1..<length (sol ! r2_idx)]]"

definition N2_apply :: "solution \<Rightarrow> nat \<times> nat \<times> nat \<times> nat \<Rightarrow> solution" where
  "N2_apply sol mv =
     (case mv of (r1_idx, c_idx, r2_idx, pos) \<Rightarrow>
        let customer = sol ! r1_idx ! c_idx;
            sol1 = sol[r1_idx := pop_at (sol ! r1_idx) c_idx];
            sol2 = sol1[r2_idx := insert_at (sol1 ! r2_idx) pos customer]
        in drop_empty_routes sol2)"

definition N2_pass :: "int list \<Rightarrow> int \<Rightarrow> dist_matrix \<Rightarrow> solution \<Rightarrow> solution option" where
  "N2_pass demands capacity dm sol =
     map_option (N2_apply sol) (best_of (N2_candidates sol demands capacity dm))"

definition N2_relocate_inter :: "solution \<Rightarrow> int list \<Rightarrow> int \<Rightarrow> dist_matrix \<Rightarrow> solution option" where
  "N2_relocate_inter solution demands capacity dm =
     improve_loop (N2_pass demands capacity dm) solution"

subsection \<open>N3: swap two customers of different routes\<close>

definition swap_delta :: "solution \<Rightarrow> dist_matrix \<Rightarrow> nat \<Rightarrow> nat \<Rightarrow> nat \<Rightarrow> nat \<Rightarrow> real" where
  "swap_delta sol dm r1_idx c1_idx r2_idx c2_idx =
     (let c1 = sol ! r1_idx ! c1_idx; c2 = sol ! r2_idx ! c2_idx
      in dm (sol ! r1_idx ! (c1_idx - 1)) c2 + dm c2 (sol ! r1_idx ! (c1_idx + 1))
         + dm (sol ! r2_idx ! (c2_idx - 1)) c1 + dm c1 (sol ! r2_idx ! (c2_idx + 1))
         - dm (sol ! r1_idx ! (c1_idx - 1)) c1 - dm c1 (sol ! r1_idx ! (c1_idx + 1))
         - dm (sol ! r2_idx ! (c2_idx - 1)) c2 - dm c2 (sol ! r2_idx ! (c2_idx + 1)))"

definition swap_loads_ok :: "solution \<Rightarrow> int list \<Rightarrow> int \<Rightarrow> nat \<Rightarrow> nat \<Rightarrow> nat \<Rightarrow> nat \<Rightarrow> bool" where
  "swap_loads_ok sol demands capacity r1_idx c1_idx r2_idx c2_idx =
     (let c1 = sol ! r1_idx ! c1_idx; c2 = sol ! r2_idx ! c2_idx;
          load1 = route_demand (sol ! r1_idx) demands - demands ! c1 + demands ! c2;
          load2 = route_demand (sol ! r2_idx) demands - demands ! c2 + demands ! c1
      in \<not> (load1 > capacity \<or> load2 > capacity))"

definition N3_candidates ::
  "solution \<Rightarrow> int list \<Rightarrow> int \<Rightarrow> dist_matrix \<Rightarrow> (real \<times> nat \<times> nat \<times> nat \<times> nat) list" where
  "N3_candidates sol demands capacity dm =
     [(swap_delta sol dm r1_idx c1_idx r2_idx c2_idx, (r1_idx, c1_idx, r2_idx, c2_idx)).
        r1_idx \<leftarrow> [0..<length sol],
        \<not> length (sol ! r1_idx) \<le> 2,
        c1_idx \<leftarrow> [1..<length (sol ! r1_idx) - 1],
        r2_idx \<leftarrow> [r1_idx + 1..<length sol],
        \<not> length (sol ! r2_idx) \<le> 2,
        c2_idx \<leftarrow> [1..<length (sol ! r2_idx) - 1],
        swap_loads_ok sol demands capacity r1_idx c1_idx r2_idx c2_idx]"

definition N3_apply :: "solution \<Rightarrow> nat \<times> nat \<times> nat \<times> nat \<Rightarrow> solution" where
  "N3_apply sol mv =
     (case mv of (r1_idx, c1_idx, r2_idx, c2_idx) \<Rightarrow>
        let c1 = sol ! r1_idx ! c1_idx;
            c2 = sol ! r2_idx ! c2_idx;
            sol1 = sol[r1_idx := (sol ! r1_idx)[c1_idx := c2]]
        in sol1[r2_idx := (sol1 ! r2_idx)[c2_idx := c1]])"

definition N3_pass :: "int list \<Rightarrow> int \<Rightarrow> dist_matrix \<Rightarrow> solution \<Rightarrow> solution option" where
  "N3_pass demands capacity dm sol =
     map_option (N3_apply sol) (best_of (N3_candidates sol demands capacity dm))"

definition N3_swap_inter :: "solution \<Rightarrow> int list \<Rightarrow> int \<Rightarrow> dist_matrix \<Rightarrow> solution option" where
  "N3_swap_inter solution demands capacity dm =
     improve_loop (N3_pass demands capacity dm) solution"

subsection \<open>N4: exchange the tails of two routes\<close>

definition N4_new_r1 :: "solution \<Rightarrow> nat \<Rightarrow> nat \<Rightarrow> nat \<Rightarrow> nat \<Rightarrow> route" where
  "N4_new_r1 best_sol r1_idx r2_idx i j = take (i + 1) (best_sol ! r1_idx) @ drop (j + 1) (best_sol ! r2_idx)"

definition N4_new_r2 :: "solution \<Rightarrow> nat \<Rightarrow> nat \<Rightarrow> nat \<Rightarrow> nat \<Rightarrow> route" where
  "N4_new_r2 best_sol r1_idx r2_idx i j = take (j + 1) (best_sol ! r2_idx) @ drop (i + 1) (best_sol ! r1_idx)"

definition N4_positions :: "solution \<Rightarrow> (nat \<times> nat \<times> nat \<times> nat) list" where
  "N4_positions best_sol =
     [(r1_idx, r2_idx, i, j).
        r1_idx \<leftarrow> [0..<length best_sol],
        \<not> length (best_sol ! r1_idx) \<le> 2,
        r2_idx \<leftarrow> [r1_idx + 1..<length best_sol],
        \<not> length (best_sol ! r2_idx) \<le> 2,
        i \<leftarrow> [1..<length (best_sol ! r1_idx) - 1],
        j \<leftarrow> [1..<length (best_sol ! r2_idx) - 1]]"

definition N4_improves :: "solution \<Rightarrow> int list \<Rightarrow> int \<Rightarrow> dist_matrix \<Rightarrow> nat \<times> nat \<times> nat \<times> nat \<Rightarrow> bool" where
  "N4_improves best_sol demands capacity dm mv =
     (case mv of (r1_idx, r2_idx, i, j) \<Rightarrow>
        let new_r1 = N4_new_r1 best_sol r1_idx r2_idx i j;
            new_r2 = N4_new_r2 best_sol r1_idx r2_idx i j
        in route_demand new_r1 demands \<le> capacity \<and> route_demand new_r2 demands \<le> capacity
           \<and> route_cost new_r1 dm + route_cost new_r2 dm
               < route_cost (best_sol ! r1_idx) dm + route_cost (best_sol ! r2_idx) dm
                 - IMPROVEMENT_THRESHOLD)"

definition N4_apply :: "solution \<Rightarrow> nat \<times> nat \<times> nat \<times> nat \<Rightarrow> solution" where
  "N4_apply best_sol mv =
     (case mv of (r1_idx, r2_idx, i, j) \<Rightarrow>
        (best_sol[r1_idx := N4_new_r1 best_sol r1_idx r2_idx i j])
                 [r2_idx := N4_new_r2 best_sol r1_idx r2_idx i j])"

definition N4_pass :: "int list \<Rightarrow> int \<Rightarrow> dist_matrix \<Rightarrow> solution \<Rightarrow> solution option" where
  "N4_pass demands capacity dm best_sol =
     map_option (N4_apply best_sol)
       (List.find (N4_improves best_sol demands capacity dm) (N4_positions best_sol))"

definition N4_two_opt_inter :: "solution \<Rightarrow> int list \<Rightarrow> int \<Rightarrow> dist_matrix \<Rightarrow> solution option" where
  "N4_two_opt_inter solution demands capacity dm =
     improve_loop (N4_pass demands capacity dm) solution"

subsection \<open>N5: merge two routes\<close>

definition merge_configs :: "route \<Rightarrow> route \<Rightarrow> route list" where
  "merge_configs r1 r2 =
     [butlast r1 @ tl r2,
      butlast r2 @ tl r1,
      butlast r1 @ interior_reversed r2 @ [0],
      butlast r2 @ interior_reversed r1 @ [0]]"

definition N5_candidates ::
  "solution \<Rightarrow> int list \<Rightarrow> int \<Rightarrow> dist_matrix \<Rightarrow> (real \<times> nat \<times> nat \<times> route) list" where
  "N5_candidates sol demands capacity dm =
     [(route_cost merged dm - (route_cost (sol ! r1_idx) dm + route_cost (sol ! r2_idx) dm),
       (r1_idx, r2_idx, merged)).
        r1_idx \<leftarrow> [0..<length sol],
        r2_idx \<leftarrow> [r1_idx + 1..<length sol],
        route_demand (sol ! r1_idx) demands + route_demand (sol ! r2_idx) demands \<le> capacity,
        merged \<leftarrow> merge_configs (sol ! r1_idx) (sol ! r2_idx)]"

text \<open>\<open>[route for idx, route in enumerate(sol) if idx != r1_idx and idx != r2_idx]\<close>, then
  \<open>append(merged)\<close>.\<close>

definition N5_apply :: "solution \<Rightarrow> nat \<times> nat \<times> route \<Rightarrow> solution" where
  "N5_apply sol mv =
     (case mv of (r1_idx, r2_idx, merged) \<Rightarrow>
        map snd (filter (\<lambda>(idx, route). idx \<noteq> r1_idx \<and> idx \<noteq> r2_idx) (enumerate 0 sol))
        @ [merged])"

definition N5_pass :: "int list \<Rightarrow> int \<Rightarrow> dist_matrix \<Rightarrow> solution \<Rightarrow> solution option" where
  "N5_pass demands capacity dm sol =
     map_option (N5_apply sol) (best_of (N5_candidates sol demands capacity dm))"

definition N5_merge_routes :: "solution \<Rightarrow> int list \<Rightarrow> int \<Rightarrow> dist_matrix \<Rightarrow> solution option" where
  "N5_merge_routes solution demands capacity dm =
     improve_loop (N5_pass demands capacity dm) solution"

subsection \<open>N6: Or-opt, chains of one to three customers\<close>

datatype or_move =
  Intra nat nat nat nat
| Inter nat nat nat nat nat

definition or_intra_delta :: "solution \<Rightarrow> dist_matrix \<Rightarrow> nat \<Rightarrow> nat \<Rightarrow> nat \<Rightarrow> nat \<Rightarrow> real" where
  "or_intra_delta sol dm r_idx start chain_len insert_pos =
     (let route = sol ! r_idx;
          old_cost = dm (route ! (start - 1)) (route ! start)
                     + dm (route ! (start + chain_len - 1)) (route ! (start + chain_len))
                     + dm (route ! (insert_pos - 1)) (route ! insert_pos);
          new_cost = dm (route ! (start - 1)) (route ! (start + chain_len))
                     + dm (route ! (insert_pos - 1)) (route ! start)
                     + dm (route ! (start + chain_len - 1)) (route ! insert_pos)
      in new_cost - old_cost)"

text \<open>The edges inside the chain, \<open>dist[r[start + i]][r[start + i + 1]]\<close> for
  \<open>i\<close> in \<open>range(chain_len - 1)\<close>.\<close>

definition chain_inner :: "route \<Rightarrow> dist_matrix \<Rightarrow> nat \<Rightarrow> nat \<Rightarrow> real" where
  "chain_inner r dm start chain_len =
     (\<Sum>i\<leftarrow>[0..<chain_len - 1]. dm (r ! (start + i)) (r ! (start + i + 1)))"

definition or_inter_delta :: "solution \<Rightarrow> dist_matrix \<Rightarrow> nat \<Rightarrow> nat \<Rightarrow> nat \<Rightarrow> nat \<Rightarrow> nat \<Rightarrow> real" where
  "or_inter_delta sol dm r1_idx start chain_len r2_idx insert_pos =
     (let r1 = sol ! r1_idx; r2 = sol ! r2_idx;
          removal_cost = dm (r1 ! (start - 1)) (r1 ! (start + chain_len))
                         - dm (r1 ! (start - 1)) (r1 ! start)
                         - chain_inner r1 dm start chain_len
                         - dm (r1 ! (start + chain_len - 1)) (r1 ! (start + chain_len));
          insert_cost = dm (r2 ! (insert_pos - 1)) (r1 ! start)
                        + dm (r1 ! (start + chain_len - 1)) (r2 ! insert_pos)
                        - dm (r2 ! (insert_pos - 1)) (r2 ! insert_pos)
                        + chain_inner r1 dm start chain_len
      in removal_cost + insert_cost)"

definition chain_demand :: "solution \<Rightarrow> int list \<Rightarrow> nat \<Rightarrow> nat \<Rightarrow> nat \<Rightarrow> int" where
  "chain_demand sol demands r1_idx start chain_len =
     (\<Sum>i\<leftarrow>[0..<chain_len]. demands ! (sol ! r1_idx ! (start + i)))"

definition N6_intra_candidates :: "solution \<Rightarrow> dist_matrix \<Rightarrow> nat \<Rightarrow> (real \<times> or_move) list" where
  "N6_intra_candidates sol dm chain_len =
     [(or_intra_delta sol dm r_idx start chain_len insert_pos, Intra r_idx start chain_len insert_pos).
        r_idx \<leftarrow> [0..<length sol],
        \<not> length (sol ! r_idx) \<le> chain_len + 2,
        start \<leftarrow> [1..<length (sol ! r_idx) - chain_len],
        insert_pos \<leftarrow> [1..<length (sol ! r_idx) - 1],
        \<not> (insert_pos \<ge> start \<and> insert_pos \<le> start + chain_len)]"

definition N6_inter_candidates ::
  "solution \<Rightarrow> int list \<Rightarrow> int \<Rightarrow> dist_matrix \<Rightarrow> nat \<Rightarrow> (real \<times> or_move) list" where
  "N6_inter_candidates sol demands capacity dm chain_len =
     [(or_inter_delta sol dm r1_idx start chain_len r2_idx insert_pos,
       Inter r1_idx start chain_len r2_idx insert_pos).
        r1_idx \<leftarrow> [0..<length sol],
        \<not> length (sol ! r1_idx) \<le> chain_len + 1,
        start \<leftarrow> [1..<length (sol ! r1_idx) - chain_len],
        r2_idx \<leftarrow> [0..<length sol],
        r1_idx \<noteq> r2_idx,
        \<not> route_demand (sol ! r2_idx) demands + chain_demand sol demands r1_idx start chain_len > capacity,
        insert_pos \<leftarrow> [1..<length (sol ! r2_idx)]]"

definition N6_candidates ::
  "solution \<Rightarrow> int list \<Rightarrow> int \<Rightarrow> dist_matrix \<Rightarrow> (real \<times> or_move) list" where
  "N6_candidates sol demands capacity dm =
     concat (map (\<lambda>chain_len. N6_intra_candidates sol dm chain_len
                              @ N6_inter_candidates sol demands capacity dm chain_len)
                 [1, 2, 3])"

text \<open>\<open>del r[start:start + chain_len]\<close>, and the loop
  \<open>for i, customer in enumerate(chain): r.insert(insert_pos + i, customer)\<close>.\<close>

definition delete_slice :: "'a list \<Rightarrow> nat \<Rightarrow> nat \<Rightarrow> 'a list" where
  "delete_slice r a b = take a r @ drop b r"

definition insert_chain :: "'a list \<Rightarrow> nat \<Rightarrow> 'a list \<Rightarrow> 'a list" where
  "insert_chain r insert_pos chain =
     foldl (\<lambda>r' (i, customer). insert_at r' (insert_pos + i) customer) r (enumerate 0 chain)"

definition N6_apply :: "solution \<Rightarrow> or_move \<Rightarrow> solution" where
  "N6_apply sol mv =
     (case mv of
        Intra r_idx start chain_len insert_pos \<Rightarrow>
          let chain = slice (sol ! r_idx) start (start + chain_len);
              r' = delete_slice (sol ! r_idx) start (start + chain_len);
              insert_pos' = (if insert_pos > start then insert_pos - chain_len else insert_pos)
          in sol[r_idx := insert_chain r' insert_pos' chain]
      | Inter r1_idx start chain_len r2_idx insert_pos \<Rightarrow>
          let chain = slice (sol ! r1_idx) start (start + chain_len);
              sol1 = sol[r1_idx := delete_slice (sol ! r1_idx) start (start + chain_len)];
              sol2 = sol1[r2_idx := insert_chain (sol1 ! r2_idx) insert_pos chain]
          in drop_empty_routes sol2)"

definition N6_pass :: "int list \<Rightarrow> int \<Rightarrow> dist_matrix \<Rightarrow> solution \<Rightarrow> solution option" where
  "N6_pass demands capacity dm sol =
     map_option (N6_apply sol) (best_of (N6_candidates sol demands capacity dm))"

definition N6_or_opt :: "solution \<Rightarrow> int list \<Rightarrow> int \<Rightarrow> dist_matrix \<Rightarrow> solution option" where
  "N6_or_opt solution demands capacity dm =
     improve_loop (N6_pass demands capacity dm) solution"

section \<open>vnd.py\<close>

text \<open>
  The neighbourhood list in the order of the source; the first entry is called with
  \<open>(sol, dist)\<close>, the others with \<open>(sol, demands, capacity, dist)\<close>.  The recorder only
  collects animation frames and is left out.
\<close>

definition neighborhoods ::
  "bool \<Rightarrow> int list \<Rightarrow> int \<Rightarrow> dist_matrix \<Rightarrow> (solution \<Rightarrow> solution option) list" where
  "neighborhoods use_or_opt demands capacity dm =
     [\<lambda>sol. N1_two_opt_intra sol dm,
      \<lambda>sol. N5_merge_routes sol demands capacity dm,
      \<lambda>sol. N2_relocate_inter sol demands capacity dm,
      \<lambda>sol. N3_swap_inter sol demands capacity dm,
      \<lambda>sol. N4_two_opt_inter sol demands capacity dm]
     @ (if use_or_opt then [\<lambda>sol. N6_or_opt sol demands capacity dm] else [])"

definition VND_EPS :: real where "VND_EPS = 1 / 1000000"

definition cost_improved :: "dist_matrix \<Rightarrow> solution \<Rightarrow> solution \<Rightarrow> bool" where
  "cost_improved dm sol sol_new = (solution_cost sol_new dm < solution_cost sol dm - VND_EPS)"

definition routes_reduced :: "dist_matrix \<Rightarrow> solution \<Rightarrow> solution \<Rightarrow> bool" where
  "routes_reduced dm sol sol_new =
     (\<bar>solution_cost sol_new dm - solution_cost sol dm\<bar> < VND_EPS \<and> length sol_new < length sol)"

text \<open>One turn of the \<open>while k < len(neighborhoods)\<close> loop, on the pair \<open>(sol, k)\<close>.\<close>

definition VND_step ::
  "(solution \<Rightarrow> solution option) list \<Rightarrow> dist_matrix \<Rightarrow> solution \<times> nat \<Rightarrow> (solution \<times> nat) option" where
  "VND_step nbs dm st =
     (case st of (sol, k) \<Rightarrow>
        (case (nbs ! k) sol of
           None \<Rightarrow> None
         | Some sol_new \<Rightarrow>
             if cost_improved dm sol sol_new \<or> routes_reduced dm sol sol_new
             then Some (sol_new, 0)
             else Some (sol, k + 1)))"

partial_function (option) VND_loop ::
  "(solution \<Rightarrow> solution option) list \<Rightarrow> dist_matrix \<Rightarrow> solution \<times> nat \<Rightarrow> solution option" where
  "VND_loop nbs dm st =
     (if snd st < length nbs
      then (case VND_step nbs dm st of None \<Rightarrow> None | Some st' \<Rightarrow> VND_loop nbs dm st')
      else Some (fst st))"

declare VND_loop.simps [code]

definition VND :: "solution \<Rightarrow> int list \<Rightarrow> int \<Rightarrow> dist_matrix \<Rightarrow> bool \<Rightarrow> solution option" where
  "VND solution demands capacity dm use_or_opt =
     VND_loop (neighborhoods use_or_opt demands capacity dm) dm (solution, 0)"

section \<open>shaking.py\<close>

text \<open>
  The module-level random generator is an outside source of numbers: \<open>rnd p\<close> is the
  \<open>p\<close>-th raw draw, and every function that draws returns the position of the next unused
  draw.  \<open>random.randint(a, b)\<close> is uniform on \<open>a..b\<close> and raises \<open>ValueError\<close> on an
  empty range (the value \<open>None\<close>); \<open>random.choice\<close> picks an element; \<open>random.sample(xs, 2)\<close>
  picks two elements at different positions, in order.  Each of them can return any value of
  its range, for a suitable raw draw.
\<close>

type_synonym rng = "nat \<Rightarrow> nat"

definition randint :: "rng \<Rightarrow> nat \<Rightarrow> nat \<Rightarrow> nat \<Rightarrow> nat option" where
  "randint rnd p a b = (if a \<le> b then Some (a + rnd p mod (b - a + 1)) else None)"

definition choice :: "rng \<Rightarrow> nat \<Rightarrow> 'a list \<Rightarrow> 'a option" where
  "choice rnd p xs = (if xs = [] then None else Some (xs ! (rnd p mod length xs)))"

definition sample2 :: "rng \<Rightarrow> nat \<Rightarrow> 'a list \<Rightarrow> ('a \<times> 'a) option" where
  "sample2 rnd p xs =
     (if length xs < 2 then None
      else let i = rnd p mod length xs; rest = pop_at xs i
           in Some (xs ! i, rest ! (rnd (p + 1) mod length rest)))"

text \<open>\<open>[i for i, r in enumerate(sol) if len(r) > m]\<close>\<close>

definition routes_longer_than :: "nat \<Rightarrow> solution \<Rightarrow> nat list" where
  "routes_longer_than m sol = [i. i \<leftarrow> [0..<length sol], length (sol ! i) > m]"

subsection \<open>Shake_N1: random relocations\<close>

definition Shake_N1_attempt ::
  "int list \<Rightarrow> int \<Rightarrow> rng \<Rightarrow> solution \<times> nat \<Rightarrow> (solution \<times> nat) option" where
  "Shake_N1_attempt demands capacity rnd st =
     (case st of (sol, p) \<Rightarrow> do {
        r1_idx \<leftarrow> choice rnd p (routes_longer_than 2 sol);
        c_idx \<leftarrow> randint rnd (p + 1) 1 (length (sol ! r1_idx) - 2);
        r2_idx \<leftarrow> randint rnd (p + 2) 0 (length sol - 1);
        let customer = sol ! r1_idx ! c_idx;
        if route_demand (sol ! r2_idx) demands + demands ! customer \<le> capacity
        then do {
          let sol1 = sol[r1_idx := pop_at (sol ! r1_idx) c_idx];
          pos \<leftarrow> randint rnd (p + 3) 1 (length (sol1 ! r2_idx) - 1);
          Some (sol1[r2_idx := insert_at (sol1 ! r2_idx) pos customer], p + 4)
        }
        else Some (sol, p + 3)
      })"

fun Shake_N1_loop ::
  "int list \<Rightarrow> int \<Rightarrow> rng \<Rightarrow> nat \<Rightarrow> solution \<times> nat \<Rightarrow> (solution \<times> nat) option" where
  "Shake_N1_loop demands capacity rnd 0 st = Some st"
| "Shake_N1_loop demands capacity rnd (Suc m) st =
     (if length (fst st) < 2 then Some st
      else if routes_longer_than 2 (fst st) = [] then Some st
      else (case Shake_N1_attempt demands capacity rnd st of
              None \<Rightarrow> None
            | Some st' \<Rightarrow> Shake_N1_loop demands capacity rnd m st'))"

definition Shake_N1_random_relocate ::
  "solution \<Rightarrow> int list \<Rightarrow> int \<Rightarrow> nat \<Rightarrow> rng \<Rightarrow> nat \<Rightarrow> (solution \<times> nat) option" where
  "Shake_N1_random_relocate solution demands capacity k rnd p =
     map_option (\<lambda>(sol, p'). (drop_empty_routes sol, p'))
       (Shake_N1_loop demands capacity rnd k (solution, p))"

subsection \<open>Shake_N2: random swaps\<close>

definition Shake_N2_attempt ::
  "int list \<Rightarrow> int \<Rightarrow> rng \<Rightarrow> solution \<times> nat \<Rightarrow> (solution \<times> nat) option" where
  "Shake_N2_attempt demands capacity rnd st =
     (case st of (sol, p) \<Rightarrow> do {
        (r1_idx, r2_idx) \<leftarrow> sample2 rnd p (routes_longer_than 2 sol);
        c1_idx \<leftarrow> randint rnd (p + 2) 1 (length (sol ! r1_idx) - 2);
        c2_idx \<leftarrow> randint rnd (p + 3) 1 (length (sol ! r2_idx) - 2);
        let c1 = sol ! r1_idx ! c1_idx;
        let c2 = sol ! r2_idx ! c2_idx;
        let load1 = route_demand (sol ! r1_idx) demands - demands ! c1 + demands ! c2;
        let load2 = route_demand (sol ! r2_idx) demands - demands ! c2 + demands ! c1;
        if load1 \<le> capacity \<and> load2 \<le> capacity
        then (let sol1 = sol[r1_idx := (sol ! r1_idx)[c1_idx := c2]]
              in Some (sol1[r2_idx := (sol1 ! r2_idx)[c2_idx := c1]], p + 4))
        else Some (sol, p + 4)
      })"

fun Shake_N2_loop ::
  "int list \<Rightarrow> int \<Rightarrow> rng \<Rightarrow> nat \<Rightarrow> solution \<times> nat \<Rightarrow> (solution \<times> nat) option" where
  "Shake_N2_loop demands capacity rnd 0 st = Some st"
| "Shake_N2_loop demands capacity rnd (Suc m) st =
     (if length (fst st) < 2 then Some st
      else if length (routes_longer_than 2 (fst st)) < 2 then Some st
      else (case Shake_N2_attempt demands capacity rnd st of
              None \<Rightarrow> None
            | Some st' \<Rightarrow> Shake_N2_loop demands capacity rnd m st'))"

definition Shake_N2_random_swap ::
  "solution \<Rightarrow> int list \<Rightarrow> int \<Rightarrow> nat \<Rightarrow> rng \<Rightarrow> nat \<Rightarrow> (solution \<times> nat) option" where
  "Shake_N2_random_swap solution demands capacity k rnd p =
     Shake_N2_loop demands capacity rnd k (solution, p)"

subsection \<open>Shake_N3: random segment reversals\<close>

definition Shake_N3_attempt :: "rng \<Rightarrow> solution \<times> nat \<Rightarrow> (solution \<times> nat) option" where
  "Shake_N3_attempt rnd st =
     (case st of (sol, p) \<Rightarrow> do {
        r_idx \<leftarrow> choice rnd p (routes_longer_than 4 sol);
        let route = sol ! r_idx;
        i \<leftarrow> randint rnd (p + 1) 1 (length route - 3);
        j \<leftarrow> randint rnd (p + 2) (i + 1) (length route - 2);
        Some (sol[r_idx := two_opt_move route i j], p + 3)
      })"

fun Shake_N3_loop :: "rng \<Rightarrow> nat \<Rightarrow> solution \<times> nat \<Rightarrow> (solution \<times> nat) option" where
  "Shake_N3_loop rnd 0 st = Some st"
| "Shake_N3_loop rnd (Suc m) st =
     (if routes_longer_than 4 (fst st) = [] then Some st
      else (case Shake_N3_attempt rnd st of
              None \<Rightarrow> None
            | Some st' \<Rightarrow> Shake_N3_loop rnd m st'))"

definition Shake_N3_double_bridge ::
  "solution \<Rightarrow> int list \<Rightarrow> int \<Rightarrow> nat \<Rightarrow> rng \<Rightarrow> nat \<Rightarrow> (solution \<times> nat) option" where
  "Shake_N3_double_bridge solution demands capacity k rnd p =
     Shake_N3_loop rnd k (solution, p)"

section \<open>construction.py\<close>

text \<open>
  A Python \<open>set\<close> of customers is held as the list of its elements in the order in which the
  program iterates over it: ascending for \<open>set(range(1, n))\<close>, and unchanged for the others
  when one element is removed.  \<open>float('inf')\<close> as a starting minimum is the value \<open>None\<close> of
  \<open>real option\<close>, below which every distance lies.
\<close>

text \<open>\<open>xs.index(x)\<close> for an element of \<open>xs\<close>.\<close>

definition index_of :: "'a list \<Rightarrow> 'a \<Rightarrow> nat" where
  "index_of xs x = length (takeWhile (\<lambda>y. y \<noteq> x) xs)"

subsection \<open>Clarke-Wright savings\<close>

definition savings_list :: "nat \<Rightarrow> dist_matrix \<Rightarrow> (real \<times> nat \<times> nat) list" where
  "savings_list n dm = [(dm 0 i + dm 0 j - dm i j, i, j). i \<leftarrow> [1..<n], j \<leftarrow> [i + 1..<n]]"

text \<open>\<open>for r in routes: if i in r: route_i = r\<close> keeps the last route that holds \<open>i\<close>.\<close>

definition route_holding :: "solution \<Rightarrow> node \<Rightarrow> route option" where
  "route_holding routes i = List.find (\<lambda>r. i \<in> set r) (rev routes)"

definition savings_merge :: "route \<Rightarrow> route \<Rightarrow> nat \<Rightarrow> nat \<Rightarrow> route option" where
  "savings_merge route_i route_j pos_i pos_j =
     (if int pos_i = int (length route_i) - 2 \<and> pos_j = 1
        then Some (butlast route_i @ tl route_j)
      else if pos_i = 1 \<and> int pos_j = int (length route_j) - 2
        then Some (butlast route_j @ tl route_i)
      else if int pos_i = int (length route_i) - 2 \<and> int pos_j = int (length route_j) - 2
        then Some (butlast route_i @ interior_reversed route_j @ [0])
      else if pos_i = 1 \<and> pos_j = 1
        then Some ([0] @ interior_reversed route_i @ tl route_j)
      else None)"

definition savings_step :: "int list \<Rightarrow> int \<Rightarrow> solution \<Rightarrow> real \<times> nat \<times> nat \<Rightarrow> solution" where
  "savings_step demands capacity routes sv =
     (case sv of (_, i, j) \<Rightarrow>
        (case (route_holding routes i, route_holding routes j) of
           (Some route_i, Some route_j) \<Rightarrow>
             if route_i = [] \<or> route_j = [] \<or> route_i = route_j then routes
             else
               let pos_i = index_of route_i i; pos_j = index_of route_j j
               in if (pos_i = 1 \<or> int pos_i = int (length route_i) - 2)
                     \<and> (pos_j = 1 \<or> int pos_j = int (length route_j) - 2)
                     \<and> route_demand route_i demands + route_demand route_j demands \<le> capacity
                  then (case savings_merge route_i route_j pos_i pos_j of
                          None \<Rightarrow> routes
                        | Some new_route \<Rightarrow> remove1 route_j (remove1 route_i routes) @ [new_route])
                  else routes
         | _ \<Rightarrow> routes))"

definition savings_algorithm ::
  "(real \<times> real) list \<Rightarrow> int list \<Rightarrow> int \<Rightarrow> dist_matrix \<Rightarrow> solution" where
  "savings_algorithm coords demands capacity dm =
     (let n = length demands
      in foldl (savings_step demands capacity) [[0, i, 0]. i \<leftarrow> [1..<n]]
           (rev (sort (savings_list n dm))))"

subsection \<open>Nearest neighbour\<close>

text \<open>
  A scan for the first strict minimum: \<open>best = float('inf')\<close>, and a candidate replaces
  the best one when its value is strictly smaller.
\<close>

definition keep_smaller :: "real option \<times> 'm option \<Rightarrow> real \<times> 'm \<Rightarrow> real option \<times> 'm option" where
  "keep_smaller best cand =
     (if (case fst best of None \<Rightarrow> True | Some b \<Rightarrow> fst cand < b)
      then (Some (fst cand), Some (snd cand)) else best)"

definition first_min :: "(real \<times> 'm) list \<Rightarrow> 'm option" where
  "first_min cands = snd (foldl keep_smaller (None, None) cands)"

lemma first_min_fold_member:
  "snd (foldl keep_smaller best cands) = Some x \<Longrightarrow> x \<in> snd ` set cands \<or> snd best = Some x"
  by (induction cands arbitrary: best) (force simp: keep_smaller_def split: if_splits)+

lemma first_min_member: "first_min cands = Some x \<Longrightarrow> x \<in> snd ` set cands"
  unfolding first_min_def by (drule first_min_fold_member) simp

text \<open>The scan \<open>for customer in unvisited\<close> for the nearest customer that still fits.\<close>

definition nn_scan ::
  "int list \<Rightarrow> int \<Rightarrow> dist_matrix \<Rightarrow> node \<Rightarrow> int \<Rightarrow> node list \<Rightarrow> node option" where
  "nn_scan demands capacity dm current route_load unvisited =
     first_min [(dm current customer, customer).
                  customer \<leftarrow> unvisited, route_load + demands ! customer \<le> capacity]"

lemma nn_scan_member:
  "nn_scan demands capacity dm current route_load unvisited = Some c \<Longrightarrow> c \<in> set unvisited"
  unfolding nn_scan_def by (drule first_min_member) auto

text \<open>
  The inner \<open>while unvisited:\<close> loop that fills one route.  Each turn removes the chosen
  customer from \<open>unvisited\<close> or leaves the loop.
\<close>

function nn_fill ::
  "int list \<Rightarrow> int \<Rightarrow> dist_matrix \<Rightarrow> route \<Rightarrow> node \<Rightarrow> int \<Rightarrow> node list \<Rightarrow> route \<times> node list" where
  "nn_fill demands capacity dm route current route_load unvisited =
     (if unvisited = [] then (route, unvisited)
      else (case nn_scan demands capacity dm current route_load unvisited of
              None \<Rightarrow> (route, unvisited)
            | Some best_customer \<Rightarrow>
                nn_fill demands capacity dm (route @ [best_customer]) best_customer
                  (route_load + demands ! best_customer) (remove1 best_customer unvisited)))"
  by pat_completeness auto
termination
proof (relation "measure (\<lambda>(demands, capacity, dm, route, current, route_load, unvisited). length unvisited)")
  show "wf (measure (\<lambda>(demands, capacity, dm, route, current, route_load, unvisited). length unvisited))"
    by simp
next
  fix demands :: "int list" and capacity :: int and dm :: dist_matrix and route :: route
    and current :: node and route_load :: int and unvisited :: "node list" and x2 :: node
  assume "unvisited \<noteq> []" and "nn_scan demands capacity dm current route_load unvisited = Some x2"
  then have "x2 \<in> set unvisited" by (simp add: nn_scan_member)
  then have "length (remove1 x2 unvisited) < length unvisited"
    by (simp add: length_remove1) (cases unvisited; simp)
  then show "((demands, capacity, dm, route @ [x2], x2, route_load + demands ! x2, remove1 x2 unvisited),
              (demands, capacity, dm, route, current, route_load, unvisited))
             \<in> measure (\<lambda>(demands, capacity, dm, route, current, route_load, unvisited). length unvisited)"
    by simp
qed

declare nn_fill.simps [simp del]

text \<open>The outer \<open>while unvisited:\<close> loop; nothing in the source bounds its turns.\<close>

partial_function (option) nn_routes ::
  "int list \<Rightarrow> int \<Rightarrow> dist_matrix \<Rightarrow> node list \<Rightarrow> solution \<Rightarrow> solution option" where
  "nn_routes demands capacity dm unvisited routes =
     (if unvisited = [] then Some routes
      else let filled = nn_fill demands capacity dm [0] 0 0 unvisited
           in nn_routes demands capacity dm (snd filled)
                (if length (fst filled) > 1 then routes @ [fst filled @ [0]] else routes))"

declare nn_routes.simps [code]

definition nearest_neighbor_vrp ::
  "(real \<times> real) list \<Rightarrow> int list \<Rightarrow> int \<Rightarrow> dist_matrix \<Rightarrow> solution option" where
  "nearest_neighbor_vrp coords demands capacity dm =
     nn_routes demands capacity dm [1..<length coords] []"

subsection \<open>Greedy edge-based construction\<close>

text \<open>
  The dictionaries \<open>customer_degree\<close> and \<open>customer_to_fragment\<close>, and the lists
  \<open>fragments\<close> and \<open>fragment_loads\<close>.  The dictionary \<open>connections\<close> of the source is
  only ever appended to and never read, so it has no part in the result.
\<close>

record greedy_state =
  g_degree :: "node \<Rightarrow> nat"
  g_frag :: "node \<rightharpoonup> nat"
  g_fragments :: "route list"
  g_loads :: "int list"

text \<open>\<open>if i != 0: customer_degree[i] += 1\<close> and the same for \<open>j\<close>.\<close>

definition bump_degrees :: "node \<Rightarrow> node \<Rightarrow> (node \<Rightarrow> nat) \<Rightarrow> node \<Rightarrow> nat" where
  "bump_degrees i j deg =
     (let deg1 = (if i \<noteq> 0 then deg(i := deg i + 1) else deg)
      in if j \<noteq> 0 then deg1(j := deg1 j + 1) else deg1)"

definition greedy_open :: "int list \<Rightarrow> int \<Rightarrow> greedy_state \<Rightarrow> node \<Rightarrow> node \<Rightarrow> greedy_state" where
  "greedy_open demands capacity st i j =
     (if i = 0 \<or> j = 0 then
        (let customer = (if i = 0 then j else i)
         in if demands ! customer \<le> capacity
            then st\<lparr>g_fragments := g_fragments st @ [[i, j]],
                    g_loads := g_loads st @ [demands ! customer],
                    g_frag := (if customer \<noteq> 0
                               then (g_frag st)(customer \<mapsto> length (g_fragments st))
                               else g_frag st),
                    g_degree := bump_degrees i j (g_degree st)\<rparr>
            else st)
      else if demands ! i + demands ! j \<le> capacity
        then st\<lparr>g_fragments := g_fragments st @ [[i, j]],
                g_loads := g_loads st @ [demands ! i + demands ! j],
                g_frag := (g_frag st)(i \<mapsto> length (g_fragments st), j \<mapsto> length (g_fragments st)),
                g_degree := (\<lambda>deg. deg(j := deg j + 1)) ((g_degree st)(i := g_degree st i + 1))\<rparr>
      else st)"

text \<open>The node \<open>inner\<close> is in fragment \<open>frag\<close>; the node \<open>outer\<close> is in none.\<close>

definition greedy_extend ::
  "int list \<Rightarrow> int \<Rightarrow> greedy_state \<Rightarrow> node \<Rightarrow> node \<Rightarrow> nat \<Rightarrow> node \<Rightarrow> node \<Rightarrow> greedy_state" where
  "greedy_extend demands capacity st i j frag inner outer =
     (let fragment = g_fragments st ! frag;
          new_load = g_loads st ! frag + (if outer \<noteq> 0 then demands ! outer else 0)
      in if new_load \<le> capacity \<and> (inner = hd fragment \<or> inner = last fragment)
         then st\<lparr>g_fragments := (g_fragments st)
                     [frag := (if inner = hd fragment then outer # fragment else fragment @ [outer])],
                 g_degree := bump_degrees i j (g_degree st),
                 g_frag := (if outer \<noteq> 0 then (g_frag st)(outer \<mapsto> frag) else g_frag st),
                 g_loads := (g_loads st)[frag := new_load]\<rparr>
         else st)"

definition greedy_join_config :: "route \<Rightarrow> route \<Rightarrow> node \<Rightarrow> node \<Rightarrow> route option" where
  "greedy_join_config frag1 frag2 i j =
     (if i = last frag1 \<and> j = hd frag2 then Some (frag1 @ frag2)
      else if i = hd frag1 \<and> j = last frag2 then Some (frag2 @ frag1)
      else if i = last frag1 \<and> j = last frag2 then Some (frag1 @ rev frag2)
      else if i = hd frag1 \<and> j = hd frag2 then Some (rev frag1 @ frag2)
      else None)"

definition greedy_join ::
  "int \<Rightarrow> greedy_state \<Rightarrow> node \<Rightarrow> node \<Rightarrow> nat \<Rightarrow> nat \<Rightarrow> greedy_state" where
  "greedy_join capacity st i j frag_i frag_j =
     (let frag1 = g_fragments st ! frag_i;
          frag2 = g_fragments st ! frag_j;
          new_load = g_loads st ! frag_i + g_loads st ! frag_j;
          i_at_end = (i = hd frag1 \<or> i = last frag1);
          j_at_end = (j = hd frag2 \<or> j = last frag2)
      in if new_load \<le> capacity \<and> i_at_end \<and> j_at_end
         then (case greedy_join_config frag1 frag2 i j of
                 None \<Rightarrow> st
               | Some merged \<Rightarrow>
                   st\<lparr>g_fragments := ((g_fragments st)[frag_i := merged])[frag_j := []],
                      g_loads := ((g_loads st)[frag_i := new_load])[frag_j := 0],
                      g_frag := foldl (\<lambda>m customer. if customer \<noteq> 0 then m(customer \<mapsto> frag_i) else m)
                                  (g_frag st) frag2,
                      g_degree := bump_degrees i j (g_degree st)\<rparr>)
         else st)"

definition greedy_edge :: "int list \<Rightarrow> int \<Rightarrow> greedy_state \<Rightarrow> real \<times> node \<times> node \<Rightarrow> greedy_state" where
  "greedy_edge demands capacity st e =
     (case e of (cost, i, j) \<Rightarrow>
        if i \<noteq> 0 \<and> g_degree st i \<ge> 2 then st
        else if j \<noteq> 0 \<and> g_degree st j \<ge> 2 then st
        else (case (g_frag st i, g_frag st j) of
                (None, None) \<Rightarrow> greedy_open demands capacity st i j
              | (Some frag_i, None) \<Rightarrow> greedy_extend demands capacity st i j frag_i i j
              | (None, Some frag_j) \<Rightarrow> greedy_extend demands capacity st i j frag_j j i
              | (Some frag_i, Some frag_j) \<Rightarrow>
                  if frag_i \<noteq> frag_j then greedy_join capacity st i j frag_i frag_j else st))"

definition close_fragment :: "route \<Rightarrow> route" where
  "close_fragment fragment =
     (let f1 = (if hd fragment \<noteq> 0 then 0 # fragment else fragment)
      in if last f1 \<noteq> 0 then f1 @ [0] else f1)"

definition greedy_vrp ::
  "(real \<times> real) list \<Rightarrow> int list \<Rightarrow> int \<Rightarrow> dist_matrix \<Rightarrow> solution" where
  "greedy_vrp coords demands capacity dm =
     (let n = length coords;
          edges = sort [(dm i j, i, j). i \<leftarrow> [0..<n], j \<leftarrow> [i + 1..<n]];
          st = foldl (greedy_edge demands capacity)
                 \<lparr>g_degree = (\<lambda>_. 0), g_frag = Map.empty, g_fragments = [], g_loads = []\<rparr> edges
      in [close_fragment fragment.
            fragment \<leftarrow> g_fragments st, fragment \<noteq> [], length (close_fragment fragment) > 2]
         @ [[0, customer, 0].
              customer \<leftarrow> [1..<n], g_frag st customer = None, demands ! customer \<le> capacity])"

subsection \<open>Cheapest insertion\<close>

text \<open>\<open>max(unvisited, key=...)\<close> returns the first element whose key is maximal.\<close>

definition first_max :: "('a \<Rightarrow> real) \<Rightarrow> 'a list \<Rightarrow> 'a option" where
  "first_max key xs =
     (case xs of [] \<Rightarrow> None
      | x # rest \<Rightarrow> Some (foldl (\<lambda>best c. if key c > key best then c else best) x rest))"

definition insertion_candidates ::
  "int list \<Rightarrow> int \<Rightarrow> dist_matrix \<Rightarrow> solution \<Rightarrow> int list \<Rightarrow> node list \<Rightarrow> (real \<times> node \<times> nat \<times> nat) list" where
  "insertion_candidates demands capacity dm routes route_loads unvisited =
     [(dm (routes ! r_idx ! (pos - 1)) customer + dm customer (routes ! r_idx ! pos)
         - dm (routes ! r_idx ! (pos - 1)) (routes ! r_idx ! pos),
       (customer, r_idx, pos)).
        customer \<leftarrow> unvisited,
        r_idx \<leftarrow> [0..<length routes],
        \<not> route_loads ! r_idx + demands ! customer > capacity,
        pos \<leftarrow> [1..<length (routes ! r_idx)]]"

lemma insertion_candidate_member:
  "first_min (insertion_candidates demands capacity dm routes route_loads unvisited) = Some (c, r, pos)
   \<Longrightarrow> c \<in> set unvisited"
  unfolding insertion_candidates_def by (drule first_min_member) auto

function ci_loop ::
  "int list \<Rightarrow> int \<Rightarrow> dist_matrix \<Rightarrow> solution \<Rightarrow> int list \<Rightarrow> node list \<Rightarrow> solution" where
  "ci_loop demands capacity dm routes route_loads unvisited =
     (if unvisited = [] then routes
      else (case first_min (insertion_candidates demands capacity dm routes route_loads unvisited) of
              None \<Rightarrow>
                (let customer = hd unvisited
                 in if demands ! customer \<le> capacity
                    then ci_loop demands capacity dm (routes @ [[0, customer, 0]])
                           (route_loads @ [demands ! customer]) (tl unvisited)
                    else ci_loop demands capacity dm routes route_loads (tl unvisited))
            | Some (best_customer, best_route, best_position) \<Rightarrow>
                ci_loop demands capacity dm
                  (routes[best_route := insert_at (routes ! best_route) best_position best_customer])
                  (route_loads[best_route := route_loads ! best_route + demands ! best_customer])
                  (remove1 best_customer unvisited)))"
  by pat_completeness auto
termination
proof (relation "measure (\<lambda>(demands, capacity, dm, routes, route_loads, unvisited). length unvisited)",
       goal_cases)
  case 1
  show ?case by simp
next
  case (2 demands capacity dm routes route_loads unvisited)
  then show ?case by (cases unvisited) simp_all
next
  case (3 demands capacity dm routes route_loads unvisited)
  then show ?case by (cases unvisited) simp_all
next
  case (4 demands capacity dm routes route_loads unvisited x2 x y x2a ya)
  then have "x \<in> set unvisited" by (auto dest: insertion_candidate_member)
  then have "length (remove1 x unvisited) < length unvisited"
    by (simp add: length_remove1) (cases unvisited; simp)
  then show ?case by simp
qed

declare ci_loop.simps [simp del]

definition cheapest_insertion_vrp ::
  "(real \<times> real) list \<Rightarrow> int list \<Rightarrow> int \<Rightarrow> dist_matrix \<Rightarrow> solution option" where
  "cheapest_insertion_vrp coords demands capacity dm =
     (let n = length coords; unvisited = [1..<n]
      in case first_max (\<lambda>c. dm 0 c) unvisited of
           None \<Rightarrow> None
         | Some farthest \<Rightarrow>
             Some (ci_loop demands capacity dm [[0, farthest, 0]] [demands ! farthest]
                     (remove1 farthest unvisited)))"

subsection \<open>Random construction\<close>

text \<open>\<open>random.shuffle\<close>: \<open>for i in reversed(range(1, len(x))): j = randbelow(i + 1)\<close>
  and \<open>x[i], x[j] = x[j], x[i]\<close>.\<close>

fun shuffle_from :: "rng \<Rightarrow> nat \<Rightarrow> nat \<Rightarrow> 'a list \<Rightarrow> 'a list" where
  "shuffle_from rnd p 0 x = x"
| "shuffle_from rnd p (Suc i) x =
     (let j = rnd p mod (Suc i + 1)
      in shuffle_from rnd (p + 1) i (x[Suc i := x ! j, j := x ! Suc i]))"

definition shuffle :: "rng \<Rightarrow> nat \<Rightarrow> 'a list \<Rightarrow> 'a list \<times> nat" where
  "shuffle rnd p x = (shuffle_from rnd p (length x - 1) x, p + (length x - 1))"

definition random_pack :: "int list \<Rightarrow> int \<Rightarrow> solution \<times> route \<times> int \<Rightarrow> node \<Rightarrow> solution \<times> route \<times> int" where
  "random_pack demands capacity st customer =
     (case st of (routes, current_route, current_load) \<Rightarrow>
        if current_load + demands ! customer \<le> capacity
        then (routes, current_route @ [customer], current_load + demands ! customer)
        else ((if length current_route > 1 then routes @ [current_route @ [0]] else routes),
              [0, customer], demands ! customer))"

definition random_initial_solution ::
  "(real \<times> real) list \<Rightarrow> int list \<Rightarrow> int \<Rightarrow> rng \<Rightarrow> nat \<Rightarrow> solution \<times> nat" where
  "random_initial_solution coords demands capacity rnd p =
     (let n = length coords;
          shuffled = shuffle rnd p [1..<n]
      in case foldl (random_pack demands capacity) ([], [0], 0) (fst shuffled) of
           (routes, current_route, current_load) \<Rightarrow>
             ((if length current_route > 1 then routes @ [current_route @ [0]] else routes),
              snd shuffled))"

section \<open>vns.py: the orchestrator\<close>

subsection \<open>Choice of the construction heuristic\<close>

text \<open>
  \<open>_build_initial_solution\<close> looks the method name up in \<open>method_map\<close>; a name that is not a
  key is reported with \<open>print\<close> and replaced by \<open>'Clarke-Wright'\<close>.  The result carries the
  lines printed, the solution, the label and the position of the next random draw.  A
  construction that raises or never returns gives \<open>None\<close>.
\<close>

type_synonym construction =
  "(real \<times> real) list \<Rightarrow> int list \<Rightarrow> int \<Rightarrow> dist_matrix \<Rightarrow> rng \<Rightarrow> nat \<Rightarrow> (solution \<times> nat) option"

definition method_map :: "(string \<times> construction \<times> bool \<times> string) list" where
  "method_map =
     [(''Clarke-Wright'',
         (\<lambda>coords demands capacity dm rnd p. Some (savings_algorithm coords demands capacity dm, p)),
         True, ''Clarke-Wright Savings''),
      (''nearest_neighbor'',
         (\<lambda>coords demands capacity dm rnd p.
            map_option (\<lambda>sol. (sol, p)) (nearest_neighbor_vrp coords demands capacity dm)),
         True, ''Nearest Neighbor''),
      (''greedy'',
         (\<lambda>coords demands capacity dm rnd p. Some (greedy_vrp coords demands capacity dm, p)),
         True, ''Greedy Algorithm''),
      (''cheapest_insertion'',
         (\<lambda>coords demands capacity dm rnd p.
            map_option (\<lambda>sol. (sol, p)) (cheapest_insertion_vrp coords demands capacity dm)),
         True, ''Cheapest Insertion''),
      (''random'',
         (\<lambda>coords demands capacity dm rnd p. Some (random_initial_solution coords demands capacity rnd p)),
         False, ''Random'')]"

text \<open>\<open>f"Unknown method '{method}', falling back to Clarke-Wright."\<close>\<close>

definition fallback_warning :: "string \<Rightarrow> string" where
  "fallback_warning method =
     ''Unknown method '' @ [CHR 0x27] @ method @ [CHR 0x27] @ '', falling back to Clarke-Wright.''"

definition build_initial_solution ::
  "string \<Rightarrow> (real \<times> real) list \<Rightarrow> int list \<Rightarrow> int \<Rightarrow> dist_matrix \<Rightarrow> rng \<Rightarrow> nat
   \<Rightarrow> (string list \<times> solution \<times> string \<times> nat) option" where
  "build_initial_solution method coords demands capacity dm rnd p =
     (let unknown = (map_of method_map method = None);
          printed = (if unknown then [fallback_warning method] else []);
          method' = (if unknown then ''Clarke-Wright'' else method)
      in case map_of method_map method' of
           None \<Rightarrow> None
         | Some (func, needs_dist, label) \<Rightarrow>
             map_option (\<lambda>(solution, p'). (printed, solution, label, p'))
               (func coords demands capacity dm rnd p))"

subsection \<open>The search loop\<close>

text \<open>
  The variables of the loop.  \<open>v_rng\<close> is the position of the next unused random draw.
\<close>

record vns_state =
  v_best :: solution
  v_best_cost :: real
  v_k :: nat
  v_iteration :: nat
  v_last_improvement :: nat
  v_tabu_skips :: nat
  v_tabu_list :: "node list list list"
  v_rng :: nat

text \<open>
  What the loop reads and never writes.  \<open>p_clock i\<close> is the value of
  \<open>time.time() - start_time\<close> read by the loop condition when \<open>iteration = i\<close>; the clock is
  outside the program, and every statement about the loop holds for every such function.
\<close>

record vns_params =
  p_demands :: "int list"
  p_capacity :: int
  p_dm :: dist_matrix
  p_use_or_opt :: bool
  p_n :: nat
  p_max_iter :: int
  p_max_time :: real
  p_rnd :: rng
  p_clock :: "nat \<Rightarrow> real"

definition patience :: "nat \<Rightarrow> nat" where
  "patience n = min PATIENCE_MAX (max PATIENCE_MIN (n div 5))"

definition min_iterations :: "nat \<Rightarrow> nat" where
  "min_iterations n = max 50 (n div 10)"

text \<open>\<open>shake_neighborhoods[(k - 1) % len(shake_neighborhoods)]\<close>, applied to \<open>best\<close>.\<close>

definition shake ::
  "nat \<Rightarrow> solution \<Rightarrow> int list \<Rightarrow> int \<Rightarrow> nat \<Rightarrow> rng \<Rightarrow> nat \<Rightarrow> (solution \<times> nat) option" where
  "shake shake_idx =
     [Shake_N1_random_relocate, Shake_N2_random_swap, Shake_N3_double_bridge] ! shake_idx"

definition vns_accept :: "vns_state \<Rightarrow> solution \<Rightarrow> real \<Rightarrow> bool" where
  "vns_accept st s_local cost_local =
     (if cost_local < v_best_cost st - 1 / 1000000 then True
      else if \<bar>cost_local - v_best_cost st\<bar> < 1 / 1000000 \<and> length s_local < length (v_best st)
        then True
      else False)"

text \<open>The early-stopping test at the end of the loop body.\<close>

definition early_stop :: "nat \<Rightarrow> vns_state \<Rightarrow> bool" where
  "early_stop n st =
     (v_iteration st > min_iterations n \<and> v_iteration st - v_last_improvement st > patience n)"

text \<open>
  One turn of the \<open>while\<close> loop.  The flag returned with the state says whether the turn
  ended in \<open>break\<close>; the tabu branch ends in \<open>continue\<close>, before the early-stopping test.
\<close>

definition vns_body :: "vns_params \<Rightarrow> vns_state \<Rightarrow> (vns_state \<times> bool) option" where
  "vns_body P st =
     (case shake ((v_k st - 1) mod 3) (v_best st) (p_demands P) (p_capacity P) (v_k st)
             (p_rnd P) (v_rng st) of
        None \<Rightarrow> None
      | Some (s_shaken, p') \<Rightarrow>
          if solution_hash s_shaken \<in> set (v_tabu_list st)
          then Some (st\<lparr>v_tabu_skips := v_tabu_skips st + 1,
                        v_k := v_k st mod K_MAX + 1,
                        v_iteration := v_iteration st + 1,
                        v_rng := p'\<rparr>, False)
          else (case VND s_shaken (p_demands P) (p_capacity P) (p_dm P) (p_use_or_opt P) of
                  None \<Rightarrow> None
                | Some s_local \<Rightarrow>
                    let cost_local = solution_cost s_local (p_dm P);
                        st1 = (if vns_accept st s_local cost_local
                               then st\<lparr>v_best := s_local,
                                       v_best_cost := cost_local,
                                       v_last_improvement := v_iteration st,
                                       v_k := 1,
                                       v_tabu_list := tabu_insert (v_tabu_list st)
                                                        (solution_hash s_local) (tabu_tenure (p_n P))\<rparr>
                               else st\<lparr>v_k := v_k st mod K_MAX + 1\<rparr>);
                        st2 = st1\<lparr>v_iteration := v_iteration st + 1, v_rng := p'\<rparr>
                    in Some (st2, early_stop (p_n P) st2)))"

lemma vns_body_iteration:
  "vns_body P st = Some (st', stop) \<Longrightarrow> v_iteration st' = v_iteration st + 1"
  by (auto simp: vns_body_def Let_def split: option.splits if_splits prod.splits)

text \<open>The loop condition.\<close>

definition vns_continue :: "vns_params \<Rightarrow> vns_state \<Rightarrow> bool" where
  "vns_continue P st =
     (int (v_iteration st) < p_max_iter P \<and> p_clock P (v_iteration st) < p_max_time P)"

function vns_loop :: "vns_params \<Rightarrow> vns_state \<Rightarrow> vns_state option" where
  "vns_loop P st =
     (if vns_continue P st
      then (case vns_body P st of
              None \<Rightarrow> None
            | Some (st', stop) \<Rightarrow> if stop then Some st' else vns_loop P st')
      else Some st)"
  by pat_completeness auto
termination
proof (relation "measure (\<lambda>(P, st). nat (p_max_iter P - int (v_iteration st)))", goal_cases)
  case 1
  show ?case by simp
next
  case (2 P st x2 x y)
  then have "vns_body P st = Some (x, y)" by auto
  then have "v_iteration x = v_iteration st + 1" by (rule vns_body_iteration)
  with 2 show ?case by (simp add: vns_continue_def)
qed

declare vns_loop.simps [simp del]

definition VNS_solver ::
  "(real \<times> real) list \<Rightarrow> int list \<Rightarrow> int \<Rightarrow> int \<Rightarrow> real \<Rightarrow> string \<Rightarrow> bool \<Rightarrow> rng \<Rightarrow> (nat \<Rightarrow> real)
   \<Rightarrow> (string list \<times> solution \<times> real) option" where
  "VNS_solver coords demands capacity max_iter max_time construction_method use_or_opt rnd clock =
     (let dm = compute_distance_matrix coords; n = length coords
      in case build_initial_solution construction_method coords demands capacity dm rnd 0 of
           None \<Rightarrow> None
         | Some (printed, s0, method_label, p) \<Rightarrow>
             (case VND s0 demands capacity dm use_or_opt of
                None \<Rightarrow> None
              | Some s \<Rightarrow>
                  map_option (\<lambda>st. (printed, v_best st, v_best_cost st))
                    (vns_loop
                       \<lparr>p_demands = demands, p_capacity = capacity, p_dm = dm,
                        p_use_or_opt = use_or_opt, p_n = n, p_max_iter = max_iter,
                        p_max_time = max_time, p_rnd = rnd, p_clock = clock\<rparr>
                       \<lparr>v_best = s, v_best_cost = solution_cost s dm, v_k = 1, v_iteration = 0,
                        v_last_improvement = 0, v_tabu_skips = 0, v_tabu_list = [], v_rng = p\<rparr>)))"

section \<open>A worked instance\<close>

text \<open>
  Five nodes on the x-axis: the depot at 0, customer 1 at 1/4000000, customer 2 at 1,
  customer 3 at 5 and customer 4 at -1, with demands 1, 1, 3, 1 and capacity 3.  On the axis
  \<open>math.hypot(dx, 0)\<close> is \<open>|dx|\<close>, which is \<open>ex_dm\<close>.  The random draws \<open>3, 2, 1\<close> make
  \<open>random.shuffle\<close> leave \<open>[1, 2, 3, 4]\<close> as it is; the draws \<open>2, 0, 0, 1\<close> make the first
  shake move customer 4 between customers 1 and 2; every later draw is 1.
\<close>

definition ex_coords :: "(real \<times> real) list" where
  "ex_coords = [(0, 0), (1 / 4000000, 0), (1, 0), (5, 0), (- 1, 0)]"

definition ex_dm :: dist_matrix where
  "ex_dm = (\<lambda>i j. \<bar>fst (ex_coords ! i) - fst (ex_coords ! j)\<bar>)"

definition ex_demands :: "int list" where
  "ex_demands = [0, 1, 1, 3, 1]"

definition ex_rnd :: rng where
  "ex_rnd = (\<lambda>p. if p < 7 then [3, 2, 1, 2, 0, 0, 1] ! p else 1)"

definition ex_params :: "int \<Rightarrow> vns_params" where
  "ex_params max_iter =
     \<lparr>p_demands = ex_demands, p_capacity = 3, p_dm = ex_dm, p_use_or_opt = False,
      p_n = 5, p_max_iter = max_iter, p_max_time = 600, p_rnd = ex_rnd, p_clock = (\<lambda>i. 0)\<rparr>"

text \<open>The state at the head of the loop, after the random construction and the first VND.\<close>

definition ex_state0 :: vns_state where
  "ex_state0 =
     \<lparr>v_best = [[0, 1, 2, 0], [0, 3, 0], [0, 4, 0]], v_best_cost = 14, v_k = 1,
      v_iteration = 0, v_last_improvement = 0, v_tabu_skips = 0, v_tabu_list = [], v_rng = 3\<rparr>"

text \<open>The state after the first turn.\<close>

definition ex_state1 :: vns_state where
  "ex_state1 =
     \<lparr>v_best = [[0, 1, 4, 2, 0], [0, 3, 0]], v_best_cost = 14 + 1 / 2000000, v_k = 1,
      v_iteration = 1, v_last_improvement = 0, v_tabu_skips = 0,
      v_tabu_list = [[[1, 2, 4], [3]]], v_rng = 7\<rparr>"



text \<open>A loop state of the same instance whose tabu list already holds ten fingerprints,
  the tenure of an instance of five nodes; none of them is the fingerprint of the routes
  \<open>[[0, 1, 4, 2, 0], [0, 3, 0]]\<close>.\<close>

definition ex_full_tabu :: "node list list list" where
  "ex_full_tabu =
     [[[1], [2], [3], [4]], [[1], [2, 4], [3]], [[1, 2], [3], [4]], [[1, 4], [2], [3]],
      [[1], [2], [3, 4]], [[1, 2, 3], [4]], [[1], [2, 3], [4]], [[1, 3], [2], [4]],
      [[1, 3], [2, 4]], [[1, 4], [2, 3]]]"

definition ex_state_full :: vns_state where
  "ex_state_full = ex_state0\<lparr>v_tabu_list := ex_full_tabu\<rparr>"

section \<open>Properties\<close>

subsection \<open>The fingerprint\<close>

lemma tl_rev_butlast: "tl (rev xs) = rev (butlast xs)"
  by (cases xs rule: rev_cases) simp_all

lemma interior_rev: "interior (rev r) = rev (interior r)"
  by (simp add: interior_def tl_rev_butlast butlast_rev butlast_tl)

lemma sort_rev_list: "sort (rev xs) = sort xs"
  by (rule sort_key_eq_sort_key) simp_all

lemma sort_mset_cong: "mset xs = mset ys \<Longrightarrow> sort xs = sort ys"
  by (rule sort_key_eq_sort_key) simp_all

lemma map_flip_key:
  "length flips = length s \<Longrightarrow>
   map (\<lambda>r. sort (interior r)) (map2 (\<lambda>b r. if b then rev r else r) flips s)
   = map (\<lambda>r. sort (interior r)) s"
  by (induction flips s rule: list_induct2) (simp_all add: interior_rev sort_rev_list)


text \<open>
  Claim C7.  The fingerprint \<open>_solution_hash\<close> does not change when any subset of the
  routes is reversed (\<open>flips\<close> marks the routes that are reversed) and the routes are then
  put in any other order: two solutions that differ only in the direction or the order of
  their routes have the same fingerprint.
\<close>

theorem solution_hash_invariant:
  assumes "length flips = length s"
    and "mset s' = mset (map2 (\<lambda>b r. if b then rev r else r) flips s)"
  shows "solution_hash s' = solution_hash s"
proof -
  let ?key = "\<lambda>r::route. sort (interior r)"
  let ?flipped = "map2 (\<lambda>b r. if b then rev r else r) flips s"
  have "mset (map ?key s') = image_mset ?key (mset s')" by (simp only: mset_map)
  also have "\<dots> = image_mset ?key (mset ?flipped)" by (simp only: assms(2))
  also have "\<dots> = mset (map ?key ?flipped)" by (simp only: mset_map)
  also have "\<dots> = mset (map ?key s)" using assms(1) by (simp only: map_flip_key)
  finally have "sort (map ?key s') = sort (map ?key s)" by (rule sort_mset_cong)
  then show ?thesis by (simp only: solution_hash_def)
qed

theorem solution_hash_invariant_witness:
  "length [True, False] = length [[0, 1, 2, 0], [0, 3, 0::nat]]
   \<and> mset [[0, 3, 0], [0, 2, 1, 0::nat]]
       = mset (map2 (\<lambda>b r. if b then rev r else r) [True, False] [[0, 1, 2, 0], [0, 3, 0]])
   \<and> solution_hash [[0, 3, 0], [0, 2, 1, 0]] = solution_hash [[0, 1, 2, 0], [0, 3, 0]]"
proof -
  have h1: "length [True, False] = length [[0, 1, 2, 0], [0, 3, 0::nat]]" by simp
  have h2: "mset [[0, 3, 0], [0, 2, 1, 0::nat]]
       = mset (map2 (\<lambda>b r. if b then rev r else r) [True, False] [[0, 1, 2, 0], [0, 3, 0]])"
    by simp
  from solution_hash_invariant [OF h1 h2] h1 h2 show ?thesis by (intro conjI)
qed

subsection \<open>The worked instance, evaluated\<close>

lemma ex_dm_agrees: "i < 5 \<Longrightarrow> j < 5 \<Longrightarrow> compute_distance_matrix ex_coords i j = ex_dm i j"
proof -
  have ys: "\<And>i. i < 5 \<Longrightarrow> snd (ex_coords ! i) = 0"
    by (simp add: ex_coords_def nth_Cons')
  assume "i < 5" "j < 5"
  then show ?thesis
    by (simp add: compute_distance_matrix_def euclidean_def ex_dm_def ys)
qed

lemma ex_init:
  "random_initial_solution ex_coords ex_demands 3 ex_rnd 0 = (v_best ex_state0, v_rng ex_state0)"
  by code_simp

lemma ex_vnd0: "VND (v_best ex_state0) ex_demands 3 ex_dm False = Some (v_best ex_state0)"
  by code_simp

lemma ex_cost0: "solution_cost (v_best ex_state0) ex_dm = v_best_cost ex_state0"
  by code_simp

lemma ex_body0: "vns_body (ex_params 1) ex_state0 = Some (ex_state1, False)"
  by code_simp



subsection \<open>The tabu list\<close>

lemma tabu_insert_length: "length l \<le> t \<Longrightarrow> length (tabu_insert l h t) \<le> t"
  by (simp add: tabu_insert_def Let_def)

lemma tabu_insert_full: "length l = t \<Longrightarrow> 0 < t \<Longrightarrow> tabu_insert l h t = tl l @ [h]"
  by (cases l) (simp_all add: tabu_insert_def Let_def)

lemma tabu_insert_room: "length l < t \<Longrightarrow> tabu_insert l h t = l @ [h]"
  by (simp add: tabu_insert_def Let_def)

lemma tabu_tenure_value: "tabu_tenure n = min 20 (max 10 (n div 20))"
  by (simp add: tabu_tenure_def TABU_TENURE_MIN_def TABU_TENURE_MAX_def)

lemma tabu_tenure_pos: "0 < tabu_tenure n"
  by (simp add: tabu_tenure_value)

lemma vns_body_tabu_cases:
  assumes "vns_body P st = Some (st', stop)"
  shows "v_tabu_list st' = v_tabu_list st
         \<or> (\<exists>s_local. v_best st' = s_local
               \<and> v_tabu_list st' = tabu_insert (v_tabu_list st) (solution_hash s_local) (tabu_tenure (p_n P)))"
  using assms
  by (auto simp: vns_body_def Let_def split: option.splits if_splits prod.splits)

lemma vns_body_tabu_length:
  assumes "length (v_tabu_list st) \<le> tabu_tenure (p_n P)" and "vns_body P st = Some (st', stop)"
  shows "length (v_tabu_list st') \<le> tabu_tenure (p_n P)"
  using vns_body_tabu_cases [OF assms(2)] assms(1) by (auto simp: tabu_insert_length)

lemma vns_loop_tabu_length:
  "length (v_tabu_list st) \<le> tabu_tenure (p_n P) \<Longrightarrow> vns_loop P st = Some st'
   \<Longrightarrow> length (v_tabu_list st') \<le> tabu_tenure (p_n P)"
proof (induction P st rule: vns_loop.induct)
  case (1 P st)
  show ?case
  proof (cases "vns_continue P st")
    case False
    with "1.prems" show ?thesis by (simp add: vns_loop.simps)
  next
    case True
    with "1.prems"(2) obtain st1 stop where body: "vns_body P st = Some (st1, stop)"
      by (subst (asm) vns_loop.simps) (auto split: option.splits)
    have len1: "length (v_tabu_list st1) \<le> tabu_tenure (p_n P)"
      using "1.prems"(1) body by (rule vns_body_tabu_length)
    show ?thesis
    proof (cases stop)
      case True
      with \<open>vns_continue P st\<close> body "1.prems"(2) have "st' = st1"
        by (subst (asm) vns_loop.simps) simp
      with len1 show ?thesis by simp
    next
      case False
      with \<open>vns_continue P st\<close> body "1.prems"(2) have "vns_loop P st1 = Some st'"
        by (subst (asm) vns_loop.simps) simp
      with "1.IH" [OF \<open>vns_continue P st\<close> body refl False len1] show ?thesis by simp
    qed
  qed
qed

lemma tabu_insert_eq:
  "length l \<le> t \<Longrightarrow> 0 < t \<Longrightarrow> tabu_insert l h t = (if length l < t then l @ [h] else tl l @ [h])"
  by (cases l) (auto simp: tabu_insert_def Let_def)

lemma vns_body_tabu_turn:
  assumes "vns_body P st = Some (st', stop)"
  shows "\<exists>s_shaken p'.
           shake ((v_k st - 1) mod 3) (v_best st) (p_demands P) (p_capacity P) (v_k st) (p_rnd P) (v_rng st)
             = Some (s_shaken, p')
           \<and> (if solution_hash s_shaken \<in> set (v_tabu_list st)
               then v_tabu_list st' = v_tabu_list st \<and> v_best st' = v_best st
               else \<exists>s_local.
                      VND s_shaken (p_demands P) (p_capacity P) (p_dm P) (p_use_or_opt P) = Some s_local
                      \<and> (if vns_accept st s_local (solution_cost s_local (p_dm P))
                          then v_best st' = s_local
                               \<and> v_tabu_list st' = tabu_insert (v_tabu_list st) (solution_hash s_local)
                                                      (tabu_tenure (p_n P))
                          else v_tabu_list st' = v_tabu_list st \<and> v_best st' = v_best st))"
proof -
  from assms obtain s_shaken p' where sh:
    "shake ((v_k st - 1) mod 3) (v_best st) (p_demands P) (p_capacity P) (v_k st) (p_rnd P) (v_rng st)
       = Some (s_shaken, p')"
    by (auto simp: vns_body_def split: option.splits)
  show ?thesis
  proof (cases "solution_hash s_shaken \<in> set (v_tabu_list st)")
    case True
    with assms sh have "v_tabu_list st' = v_tabu_list st \<and> v_best st' = v_best st"
      by (auto simp: vns_body_def)
    with sh True show ?thesis by simp
  next
    case False
    with assms sh obtain s_local where vnd:
      "VND s_shaken (p_demands P) (p_capacity P) (p_dm P) (p_use_or_opt P) = Some s_local"
      by (auto simp: vns_body_def split: option.splits)
    show ?thesis
    proof (cases "vns_accept st s_local (solution_cost s_local (p_dm P))")
      case True
      with assms sh False vnd
      have "v_best st' = s_local
            \<and> v_tabu_list st' = tabu_insert (v_tabu_list st) (solution_hash s_local) (tabu_tenure (p_n P))"
        by (auto simp: vns_body_def Let_def)
      with sh False vnd True show ?thesis by simp
    next
      case nacc: False
      with assms sh False vnd
      have "v_tabu_list st' = v_tabu_list st \<and> v_best st' = v_best st"
        by (auto simp: vns_body_def Let_def)
      with sh False vnd nacc show ?thesis by simp
    qed
  qed
qed

text \<open>
  Claim C6.  The tenure is \<open>min(TABU_TENURE_MAX, max(TABU_TENURE_MIN, n // 20))\<close>.  When the
  tabu list holds at most \<open>tenure\<close> fingerprints before a turn of the loop, it holds at most
  \<open>tenure\<close> after it.  A turn skipped by the tabu check and a turn whose result is rejected
  leave the list as it is; a turn whose result is accepted appends the fingerprint of the
  accepted solution when the list has room, and on a full list drops the first, that is
  the oldest, entry and appends the fingerprint.  This is what the insertion does for every
  fingerprint, and the list of every state the loop returns is within the bound.
\<close>

theorem tabu_bound:
  assumes "length (v_tabu_list st) \<le> tabu_tenure (p_n P)"
    and "vns_body P st = Some (st', stop)"
  shows "tabu_tenure (p_n P) = min TABU_TENURE_MAX (max TABU_TENURE_MIN (p_n P div 20))
       \<and> length (v_tabu_list st') \<le> tabu_tenure (p_n P)
       \<and> (\<exists>s_shaken p'.
             shake ((v_k st - 1) mod 3) (v_best st) (p_demands P) (p_capacity P) (v_k st)
               (p_rnd P) (v_rng st) = Some (s_shaken, p')
             \<and> (if solution_hash s_shaken \<in> set (v_tabu_list st)
                 then v_tabu_list st' = v_tabu_list st
                 else \<exists>s_local.
                        VND s_shaken (p_demands P) (p_capacity P) (p_dm P) (p_use_or_opt P) = Some s_local
                        \<and> (if vns_accept st s_local (solution_cost s_local (p_dm P))
                            then v_tabu_list st'
                                 = (if length (v_tabu_list st) < tabu_tenure (p_n P)
                                    then v_tabu_list st @ [solution_hash s_local]
                                    else tl (v_tabu_list st) @ [solution_hash s_local])
                            else v_tabu_list st' = v_tabu_list st)))
       \<and> (\<forall>h. tabu_insert (v_tabu_list st) h (tabu_tenure (p_n P))
                = (if length (v_tabu_list st) < tabu_tenure (p_n P)
                   then v_tabu_list st @ [h] else tl (v_tabu_list st) @ [h]))
       \<and> (\<forall>st''. vns_loop P st = Some st'' \<longrightarrow> length (v_tabu_list st'') \<le> tabu_tenure (p_n P))"
proof (intro conjI allI impI)
  show "tabu_tenure (p_n P) = min TABU_TENURE_MAX (max TABU_TENURE_MIN (p_n P div 20))"
    by (simp add: tabu_tenure_def)
  show "length (v_tabu_list st') \<le> tabu_tenure (p_n P)"
    using assms by (rule vns_body_tabu_length)
  show ins: "\<And>h. tabu_insert (v_tabu_list st) h (tabu_tenure (p_n P))
                = (if length (v_tabu_list st) < tabu_tenure (p_n P)
                   then v_tabu_list st @ [h] else tl (v_tabu_list st) @ [h])"
    using assms(1) by (rule tabu_insert_eq) (rule tabu_tenure_pos)
  from vns_body_tabu_turn [OF assms(2)]
  show "\<exists>s_shaken p'.
             shake ((v_k st - 1) mod 3) (v_best st) (p_demands P) (p_capacity P) (v_k st)
               (p_rnd P) (v_rng st) = Some (s_shaken, p')
             \<and> (if solution_hash s_shaken \<in> set (v_tabu_list st)
                 then v_tabu_list st' = v_tabu_list st
                 else \<exists>s_local.
                        VND s_shaken (p_demands P) (p_capacity P) (p_dm P) (p_use_or_opt P) = Some s_local
                        \<and> (if vns_accept st s_local (solution_cost s_local (p_dm P))
                            then v_tabu_list st'
                                 = (if length (v_tabu_list st) < tabu_tenure (p_n P)
                                    then v_tabu_list st @ [solution_hash s_local]
                                    else tl (v_tabu_list st) @ [solution_hash s_local])
                            else v_tabu_list st' = v_tabu_list st))"
    unfolding ins [symmetric] by (elim exE conjE) (rule exI, rule exI, auto split: if_splits)
next
  fix st''
  assume "vns_loop P st = Some st''"
  with assms(1) show "length (v_tabu_list st'') \<le> tabu_tenure (p_n P)"
    by (rule vns_loop_tabu_length)
qed

lemma ex_body_full:
  "vns_body (ex_params 1) ex_state_full
   = Some (ex_state1\<lparr>v_tabu_list := tl ex_full_tabu @ [[[1, 2, 4], [3]]]\<rparr>, False)"
  by code_simp

theorem tabu_bound_witness:
  "length (v_tabu_list ex_state_full) \<le> tabu_tenure (p_n (ex_params 1))
   \<and> length (v_tabu_list ex_state_full) = 10
   \<and> tabu_tenure (p_n (ex_params 1)) = 10
   \<and> vns_body (ex_params 1) ex_state_full
       = Some (ex_state1\<lparr>v_tabu_list := tl ex_full_tabu @ [[[1, 2, 4], [3]]]\<rparr>, False)
   \<and> tabu_insert (v_tabu_list ex_state_full) [[1, 2, 4], [3]] (tabu_tenure (p_n (ex_params 1)))
       = tl (v_tabu_list ex_state_full) @ [[[1, 2, 4], [3]]]
   \<and> length (v_tabu_list (ex_state1\<lparr>v_tabu_list := tl ex_full_tabu @ [[[1, 2, 4], [3]]]\<rparr>))
       \<le> tabu_tenure (p_n (ex_params 1))"
proof -
  have t: "tabu_tenure (p_n (ex_params 1)) = 10"
    by (simp add: ex_params_def tabu_tenure_value)
  have l: "length (v_tabu_list ex_state_full) = 10"
    by (simp add: ex_state_full_def ex_full_tabu_def)
  have h: "length (v_tabu_list ex_state_full) \<le> tabu_tenure (p_n (ex_params 1))"
    by (simp add: t l)
  from tabu_bound [OF h ex_body_full] h l t ex_body_full show ?thesis by simp
qed

subsection \<open>Acceptance and the best cost\<close>

lemma vns_body_cost_cases:
  assumes "vns_body P st = Some (st', stop)"
  shows "(v_best_cost st' = v_best_cost st \<and> v_best st' = v_best st)
       \<or> v_best_cost st' < v_best_cost st - 1 / 1000000
       \<or> (\<bar>v_best_cost st' - v_best_cost st\<bar> < 1 / 1000000 \<and> length (v_best st') < length (v_best st))"
  using assms
  by (auto simp: vns_body_def vns_accept_def Let_def split: option.splits if_splits prod.splits)

lemma tie_rule_bound:
  fixes a b e :: real
  assumes "(a = b \<and> X) \<or> a < b - e \<or> (\<bar>a - b\<bar> < e \<and> L)" and "0 < e"
  shows "a < b + e \<and> (b < a \<longrightarrow> L) \<and> (a = b \<or> a < b - e \<or> (\<bar>a - b\<bar> < e \<and> L))"
  using assms by (elim disjE conjE) (auto simp: abs_less_iff)

text \<open>
  Claim C2, as amended.  In one turn of the loop \<open>best_cost\<close> stays as it is, or falls by
  more than \<open>1e-6\<close>, or moves by less than \<open>1e-6\<close> in either direction while the number of
  routes of \<open>best\<close> falls (the tie rule of the acceptance test).  So it never rises by
  \<open>1e-6\<close> or more in a turn, and it rises only when the route count falls.
\<close>

theorem best_cost_step:
  assumes "vns_body P st = Some (st', stop)"
  shows "v_best_cost st' < v_best_cost st + 1 / 1000000
       \<and> (v_best_cost st < v_best_cost st' \<longrightarrow> length (v_best st') < length (v_best st))
       \<and> (v_best_cost st' = v_best_cost st
            \<or> v_best_cost st' < v_best_cost st - 1 / 1000000
            \<or> (\<bar>v_best_cost st' - v_best_cost st\<bar> < 1 / 1000000
                \<and> length (v_best st') < length (v_best st)))"
  by (rule tie_rule_bound [OF vns_body_cost_cases [OF assms]]) simp

theorem best_cost_step_witness:
  "vns_body (ex_params 1) ex_state0 = Some (ex_state1, False)
   \<and> v_best_cost ex_state1 < v_best_cost ex_state0 + 1 / 1000000
   \<and> length (v_best ex_state1) < length (v_best ex_state0)"
  using best_cost_step [OF ex_body0] ex_body0 by (simp add: ex_state0_def ex_state1_def)

text \<open>
  Claim C2 as stated fails on the worked instance: the random construction gives three
  routes of cost 14, which VND leaves as they are; the first shake moves customer 4 into
  the route of customers 1 and 2, VND leaves the two routes as they are, their cost
  \<open>14.0000005\<close> ties with 14 within \<open>1e-6\<close> and the route count fell, so the result is
  accepted and \<open>best_cost\<close> rises.
\<close>

theorem best_cost_can_increase:
  "random_initial_solution ex_coords ex_demands 3 ex_rnd 0 = (v_best ex_state0, v_rng ex_state0)
   \<and> VND (v_best ex_state0) ex_demands 3 ex_dm False = Some (v_best ex_state0)
   \<and> solution_cost (v_best ex_state0) ex_dm = v_best_cost ex_state0
   \<and> vns_body (ex_params 1) ex_state0 = Some (ex_state1, False)
   \<and> v_best_cost ex_state0 < v_best_cost ex_state1"
  using ex_init ex_vnd0 ex_cost0 ex_body0 by (simp add: ex_state0_def ex_state1_def)

subsection \<open>Termination and early stopping of the search loop\<close>








subsection \<open>The VND state machine\<close>

lemma VND_loop_at_end: "length nbs \<le> k \<Longrightarrow> VND_loop nbs dm (sol, k) = Some sol"
  by (subst VND_loop.simps) simp

lemma VND_loop_unfold:
  "k < length nbs \<Longrightarrow> VND_step nbs dm (sol, k) = Some st' \<Longrightarrow> VND_loop nbs dm (sol, k) = VND_loop nbs dm st'"
  by (subst VND_loop.simps) simp

text \<open>
  Claim C5.  VND starts at index \<open>k = 0\<close> of the neighbourhood list.  With \<open>k\<close> inside
  the list and neighbourhood \<open>k\<close> returning \<open>sol_new\<close>, the next state is \<open>(sol_new, 0)\<close>
  exactly when the cost of \<open>sol_new\<close> is below the old cost by more than \<open>1e-6\<close>, or is
  within \<open>1e-6\<close> of it with fewer routes; otherwise it is \<open>(sol, k + 1)\<close>; the loop goes
  on from that state, and it returns the current solution when \<open>k\<close> is the length of the
  list.
\<close>

theorem VND_step_semantics:
  assumes "k < length nbs" and "(nbs ! k) sol = Some sol_new"
  shows "VND_step nbs dm (sol, k)
         = Some (if solution_cost sol_new dm < solution_cost sol dm - 1 / 1000000
                    \<or> (\<bar>solution_cost sol_new dm - solution_cost sol dm\<bar> < 1 / 1000000
                        \<and> length sol_new < length sol)
                 then (sol_new, 0) else (sol, k + 1))
       \<and> VND_loop nbs dm (sol, k)
         = VND_loop nbs dm (if solution_cost sol_new dm < solution_cost sol dm - 1 / 1000000
                               \<or> (\<bar>solution_cost sol_new dm - solution_cost sol dm\<bar> < 1 / 1000000
                                   \<and> length sol_new < length sol)
                            then (sol_new, 0) else (sol, k + 1))
       \<and> VND_loop nbs dm (sol, length nbs) = Some sol
       \<and> VND sol demands capacity dm use_or_opt
         = VND_loop (neighborhoods use_or_opt demands capacity dm) dm (sol, 0)"
proof -
  have step: "VND_step nbs dm (sol, k)
         = Some (if solution_cost sol_new dm < solution_cost sol dm - 1 / 1000000
                    \<or> (\<bar>solution_cost sol_new dm - solution_cost sol dm\<bar> < 1 / 1000000
                        \<and> length sol_new < length sol)
                 then (sol_new, 0) else (sol, k + 1))"
    using assms(2) by (simp add: VND_step_def cost_improved_def routes_reduced_def VND_EPS_def)
  show ?thesis
    using step VND_loop_unfold [OF assms(1) step] by (simp add: VND_loop_at_end VND_def)
qed

theorem VND_step_semantics_witness:
  "(0::nat) < length (neighborhoods False ex_demands 10 ex_dm)
   \<and> (neighborhoods False ex_demands 10 ex_dm ! 0) [[0, 3, 1, 2, 0], [0, 4, 0]]
       = Some [[0, 1, 3, 2, 0], [0, 4, 0]]
   \<and> VND_step (neighborhoods False ex_demands 10 ex_dm) ex_dm ([[0, 3, 1, 2, 0], [0, 4, 0]], 0)
       = Some ([[0, 1, 3, 2, 0], [0, 4, 0]], 0)"
proof -
  have h1: "(0::nat) < length (neighborhoods False ex_demands 10 ex_dm)"
    by (simp add: neighborhoods_def)
  have h2: "(neighborhoods False ex_demands 10 ex_dm ! 0) [[0, 3, 1, 2, 0], [0, 4, 0]]
       = Some [[0, 1, 3, 2, 0], [0, 4, 0]]"
    by code_simp
  have c: "solution_cost [[0, 1, 3, 2, 0], [0, 4, 0]] ex_dm
           < solution_cost [[0, 3, 1, 2, 0], [0, 4, 0]] ex_dm - 1 / 1000000"
    by code_simp
  from VND_step_semantics [OF h1 h2, of ex_dm] c h1 h2 show ?thesis by simp
qed

subsection \<open>Nearest neighbour and a customer that fits no vehicle\<close>

lemma first_min_guard:
  "first_min [(f x, x). x \<leftarrow> xs, g x] = Some c \<Longrightarrow> c \<in> set xs \<and> g c"
  by (drule first_min_member) auto

lemma nn_scan_fits:
  "nn_scan demands capacity dm current route_load unvisited = Some c
   \<Longrightarrow> c \<in> set unvisited \<and> route_load + demands ! c \<le> capacity"
  unfolding nn_scan_def by (rule first_min_guard)

lemma nn_fill_keeps_oversized:
  assumes "c \<in> set unvisited" and "capacity < demands ! c" and "0 \<le> route_load"
    and "\<forall>x\<in>set unvisited. 0 \<le> demands ! x"
  shows "c \<in> set (snd (nn_fill demands capacity dm route current route_load unvisited))
         \<and> set (snd (nn_fill demands capacity dm route current route_load unvisited)) \<subseteq> set unvisited"
  using assms
proof (induction demands capacity dm route current route_load unvisited rule: nn_fill.induct)
  case (1 demands capacity dm route current route_load unvisited)
  show ?case
  proof (cases "nn_scan demands capacity dm current route_load unvisited")
    case None
    with "1.prems" show ?thesis by (subst nn_fill.simps, subst (2) nn_fill.simps) auto
  next
    case (Some b)
    from nn_scan_fits [OF Some] have b: "b \<in> set unvisited" "route_load + demands ! b \<le> capacity"
      by simp_all
    with "1.prems" have "b \<noteq> c" by auto
    with "1.prems" have c': "c \<in> set (remove1 b unvisited)" by simp
    have ne: "unvisited \<noteq> []" using b by auto
    have load: "0 \<le> route_load + demands ! b" using "1.prems" b by auto
    have nonneg: "\<forall>x\<in>set (remove1 b unvisited). 0 \<le> demands ! x"
      using "1.prems"(4) by (meson notin_set_remove1)
    from "1.IH" [OF ne Some c' "1.prems"(2) load nonneg]
    have "c \<in> set (snd (nn_fill demands capacity dm (route @ [b]) b (route_load + demands ! b)
                          (remove1 b unvisited)))
          \<and> set (snd (nn_fill demands capacity dm (route @ [b]) b (route_load + demands ! b)
                          (remove1 b unvisited))) \<subseteq> set (remove1 b unvisited)" .
    moreover have "set (remove1 b unvisited) \<subseteq> set unvisited" by (rule set_remove1_subset)
    ultimately show ?thesis using ne Some
      by (subst nn_fill.simps, subst (2) nn_fill.simps) auto
  qed
qed

lemma nn_routes_stalls:
  assumes "nn_routes demands capacity dm unvisited routes = Some r"
  shows "\<not> ((\<exists>c\<in>set unvisited. capacity < demands ! c) \<and> (\<forall>x\<in>set unvisited. 0 \<le> demands ! x))"
proof (rule nn_routes.raw_induct
    [where P = "\<lambda>demands capacity dm unvisited routes r.
       \<not> ((\<exists>c\<in>set unvisited. capacity < demands ! c) \<and> (\<forall>x\<in>set unvisited. 0 \<le> demands ! x))"
     and y = r and demands = demands and capacity = capacity and dm = dm and routes = routes])
  show "nn_routes demands capacity dm unvisited routes = Some r" by (rule assms)
next
  fix nn_call :: "int list \<Rightarrow> int \<Rightarrow> dist_matrix \<Rightarrow> node list \<Rightarrow> solution \<Rightarrow> solution option"
    and demands capacity dm unvisited routes r
  assume IH: "\<And>demands capacity dm unvisited routes r.
      nn_call demands capacity dm unvisited routes = Some r \<Longrightarrow>
      \<not> ((\<exists>c\<in>set unvisited. capacity < demands ! c) \<and> (\<forall>x\<in>set unvisited. 0 \<le> demands ! x))"
    and body: "(if unvisited = [] then Some routes
      else let filled = nn_fill demands capacity dm [0] 0 0 unvisited
           in nn_call demands capacity dm (snd filled)
                (if length (fst filled) > 1 then routes @ [fst filled @ [0]] else routes)) = Some r"
  show "\<not> ((\<exists>c\<in>set unvisited. capacity < demands ! c) \<and> (\<forall>x\<in>set unvisited. 0 \<le> demands ! x))"
  proof
    assume stuck: "(\<exists>c\<in>set unvisited. capacity < demands ! c) \<and> (\<forall>x\<in>set unvisited. 0 \<le> demands ! x)"
    then obtain c where c: "c \<in> set unvisited" "capacity < demands ! c" by blast
    then have ne: "unvisited \<noteq> []" by auto
    let ?filled = "nn_fill demands capacity dm [0] 0 0 unvisited"
    from nn_fill_keeps_oversized [OF c(1) c(2) _ conjunct2 [OF stuck], of 0 dm "[0]" 0]
    have keep: "c \<in> set (snd ?filled)" "set (snd ?filled) \<subseteq> set unvisited" by simp_all
    from body ne
    have "nn_call demands capacity dm (snd ?filled)
            (if length (fst ?filled) > 1 then routes @ [fst ?filled @ [0]] else routes) = Some r"
      by (simp add: Let_def)
    from IH [OF this] keep c(2) stuck show False by blast
  qed
qed

lemma nearest_neighbor_diverges:
  assumes "\<forall>c\<in>{1..<length coords}. 0 \<le> demands ! c" and "\<exists>c\<in>{1..<length coords}. capacity < demands ! c"
  shows "nearest_neighbor_vrp coords demands capacity dm = None"
proof (cases "nearest_neighbor_vrp coords demands capacity dm")
  case None
  then show ?thesis .
next
  case (Some r)
  then have "nn_routes demands capacity dm [1..<length coords] [] = Some r"
    by (simp add: nearest_neighbor_vrp_def)
  from nn_routes_stalls [OF this] assms show ?thesis by simp
qed

text \<open>
  Claim C3, at the input of two nodes with demands \<open>[0, 5]\<close> and capacity 3: the only
  customer fits no route, the inner loop leaves with the route \<open>[0]\<close>, which is not kept, and
  the outer loop starts again with the same \<open>unvisited\<close>.  The function does not return,
  whatever the distances.
\<close>

theorem nearest_neighbor_never_returns:
  "nearest_neighbor_vrp [(0, 0), (1, 0)] [0, 5] 3 dm = None"
proof (cases "nearest_neighbor_vrp [(0, 0), (1, 0)] [0, 5] 3 dm")
  case None
  then show ?thesis .
next
  case (Some r)
  then have "nn_routes [0, 5] 3 dm [1] [] = Some r"
    by (simp add: nearest_neighbor_vrp_def)
  from nn_routes_stalls [OF this] show ?thesis by simp
qed


subsection \<open>An unknown construction method\<close>

lemma map_of_method_map_unknown:
  "method \<notin> set [''Clarke-Wright'', ''nearest_neighbor'', ''greedy'', ''cheapest_insertion'', ''random'']
   \<Longrightarrow> map_of method_map method = None"
  by (simp add: method_map_def)

lemma map_of_method_map_cw:
  "map_of method_map ''Clarke-Wright''
   = Some ((\<lambda>coords demands capacity dm rnd p. Some (savings_algorithm coords demands capacity dm, p)),
           True, ''Clarke-Wright Savings'')"
  by (simp add: method_map_def)

lemma build_unknown:
  assumes "method \<notin> set [''Clarke-Wright'', ''nearest_neighbor'', ''greedy'', ''cheapest_insertion'', ''random'']"
  shows "build_initial_solution method coords demands capacity dm rnd p
         = Some ([fallback_warning method], savings_algorithm coords demands capacity dm,
                 ''Clarke-Wright Savings'', p)"
  using map_of_method_map_unknown [OF assms]
  by (simp add: build_initial_solution_def Let_def map_of_method_map_cw fallback_warning_def)

lemma build_cw:
  "build_initial_solution ''Clarke-Wright'' coords demands capacity dm rnd p
   = Some ([], savings_algorithm coords demands capacity dm, ''Clarke-Wright Savings'', p)"
  by (simp add: build_initial_solution_def Let_def map_of_method_map_cw)

text \<open>
  Claim C9.  For a method name that is none of the five keys, \<open>_build_initial_solution\<close>
  prints the warning and returns what it returns for \<open>'Clarke-Wright'\<close>: the solution of the
  savings algorithm, with the same label.  \<open>VNS_solver\<close> then returns what it returns for
  \<open>'Clarke-Wright'\<close>, with the warning as one more printed line.
\<close>

theorem unknown_method_falls_back:
  assumes "method \<notin> set [''Clarke-Wright'', ''nearest_neighbor'', ''greedy'', ''cheapest_insertion'', ''random'']"
  shows "build_initial_solution method coords demands capacity dm rnd p
         = Some ([fallback_warning method], savings_algorithm coords demands capacity dm,
                 ''Clarke-Wright Savings'', p)
       \<and> build_initial_solution ''Clarke-Wright'' coords demands capacity dm rnd p
         = Some ([], savings_algorithm coords demands capacity dm, ''Clarke-Wright Savings'', p)
       \<and> VNS_solver coords demands capacity max_iter max_time method use_or_opt rnd clock
         = map_option (\<lambda>(printed, result). (fallback_warning method # printed, result))
             (VNS_solver coords demands capacity max_iter max_time ''Clarke-Wright'' use_or_opt rnd clock)"
proof (intro conjI)
  show "build_initial_solution method coords demands capacity dm rnd p
         = Some ([fallback_warning method], savings_algorithm coords demands capacity dm,
                 ''Clarke-Wright Savings'', p)"
    using assms by (rule build_unknown)
  show "build_initial_solution ''Clarke-Wright'' coords demands capacity dm rnd p
         = Some ([], savings_algorithm coords demands capacity dm, ''Clarke-Wright Savings'', p)"
    by (rule build_cw)
  show "VNS_solver coords demands capacity max_iter max_time method use_or_opt rnd clock
         = map_option (\<lambda>(printed, result). (fallback_warning method # printed, result))
             (VNS_solver coords demands capacity max_iter max_time ''Clarke-Wright'' use_or_opt rnd clock)"
    unfolding VNS_solver_def Let_def build_unknown [OF assms] build_cw
    by (simp split: option.splits add: option.map_comp comp_def)
qed

theorem unknown_method_falls_back_witness:
  "''savings'' \<notin> set [''Clarke-Wright'', ''nearest_neighbor'', ''greedy'', ''cheapest_insertion'', ''random'']
   \<and> build_initial_solution ''savings'' [(0, 0), (1, 0), (2, 0)] [0, 1, 1] 2
        (\<lambda>i j. \<bar>real i - real j\<bar>) (\<lambda>_. 0) 0
       = Some ([''Unknown method 'savings', falling back to Clarke-Wright.''], [[0, 1, 2, 0]],
               ''Clarke-Wright Savings'', 0)"
proof -
  have h: "''savings'' \<notin> set [''Clarke-Wright'', ''nearest_neighbor'', ''greedy'', ''cheapest_insertion'', ''random'']"
    by simp
  have s: "savings_algorithm [(0, 0), (1, 0), (2, 0)] [0, 1, 1] 2 (\<lambda>i j. \<bar>real i - real j\<bar>) = [[0, 1, 2, 0]]"
    by code_simp
  have w: "fallback_warning ''savings'' = ''Unknown method 'savings', falling back to Clarke-Wright.''"
    by (simp add: fallback_warning_def)
  from unknown_method_falls_back [OF h, of "[(0, 0), (1, 0), (2, 0)]" "[0, 1, 1]" 2 "\<lambda>i j. \<bar>real i - real j\<bar>" "\<lambda>_. 0" 0]
  show ?thesis using h s w by simp
qed

end
